theory Spec2Isabelle
  imports Complex_Main "HOL-Library.Word"
begin

unbundle bit_operations_syntax

section \<open>Python values\<close>

text \<open>
  The values that travel through \<^verbatim>\<open>pymessenger/bot.py\<close>: recipient ids, messages,
  template elements and decoded JSON bodies.  A dict is an association list in insertion
  order, with string keys.
\<close>

datatype pyval =
    PNone
  | PBool bool
  | PInt int
  | PStr string
  | PList "pyval list"
  | PDict "(string \<times> pyval) list"

type_synonym pydict = "(string \<times> pyval) list"

datatype error =
    AttributeError
  | TypeError
  | FileNotFoundError
  | JSONDecodeError
  | RequestException

text \<open>\<^verbatim>\<open>d[k] = v\<close>: an existing key keeps its position, a new key goes last.\<close>

fun setitem :: "string \<Rightarrow> pyval \<Rightarrow> pydict \<Rightarrow> pydict" where
  "setitem k v [] = [(k, v)]"
| "setitem k v (p # ps) = (if fst p = k then (k, v) # ps else p # setitem k v ps)"

text \<open>\<^verbatim>\<open>d.update(other)\<close>.\<close>

definition dict_update :: "pydict \<Rightarrow> pydict \<Rightarrow> pydict" where
  "dict_update d other = foldl (\<lambda>acc kv. setitem (fst kv) (snd kv) acc) d other"

text \<open>
  \<^verbatim>\<open>x.get(k)\<close>: a dict answers with the value or \<^verbatim>\<open>None\<close>; the other values
  of \<^typ>\<open>pyval\<close> have no attribute \<^verbatim>\<open>get\<close>.
\<close>

fun py_get :: "pyval \<Rightarrow> string \<Rightarrow> error + pyval" where
  "py_get (PDict d) k = (case map_of d k of None \<Rightarrow> Inr PNone | Some v \<Rightarrow> Inr v)"
| "py_get _ k = Inl AttributeError"

section \<open>Enumerations\<close>

datatype NotificationType = regular | silent_push | no_push

text \<open>The \<^verbatim>\<open>.value\<close> of a member of the enumeration.\<close>

fun nt_value :: "NotificationType \<Rightarrow> string" where
  "nt_value regular = ''REGULAR''"
| "nt_value silent_push = ''SILENT_PUSH''"
| "nt_value no_push = ''NO_PUSH''"

definition confirmed_event_update :: string where
  "confirmed_event_update = ''CONFIRMED_EVENT_UPDATE''"

definition post_purchase_update :: string where
  "post_purchase_update = ''POST_PURCHASE_UPDATE''"

definition account_update :: string where
  "account_update = ''ACCOUNT_UPDATE''"

definition human_agent :: string where
  "human_agent = ''HUMAN_AGENT''"

section \<open>The application-secret proof\<close>

text \<open>
  \<^verbatim>\<open>auth_args\<close> calls \<^verbatim>\<open>utils.generate_appsecret_proof\<close>, of the module
  \<^verbatim>\<open>pymessenger/utils.py\<close>.  The specification describes it as the hex-encoded
  HMAC-SHA256 of the access token under the application secret; HMAC (RFC 2104) and
  SHA-256 (FIPS 180-4) are written out below on 32-bit words.
\<close>

type_synonym w32 = "32 word"

text \<open>The round constants, eight to a row.\<close>

definition K256 :: "w32 list" where
  "K256 =
     [0x428a2f98, 0x71374491, 0xb5c0fbcf, 0xe9b5dba5, 0x3956c25b, 0x59f111f1, 0x923f82a4, 0xab1c5ed5] @
     [0xd807aa98, 0x12835b01, 0x243185be, 0x550c7dc3, 0x72be5d74, 0x80deb1fe, 0x9bdc06a7, 0xc19bf174] @
     [0xe49b69c1, 0xefbe4786, 0x0fc19dc6, 0x240ca1cc, 0x2de92c6f, 0x4a7484aa, 0x5cb0a9dc, 0x76f988da] @
     [0x983e5152, 0xa831c66d, 0xb00327c8, 0xbf597fc7, 0xc6e00bf3, 0xd5a79147, 0x06ca6351, 0x14292967] @
     [0x27b70a85, 0x2e1b2138, 0x4d2c6dfc, 0x53380d13, 0x650a7354, 0x766a0abb, 0x81c2c92e, 0x92722c85] @
     [0xa2bfe8a1, 0xa81a664b, 0xc24b8b70, 0xc76c51a3, 0xd192e819, 0xd6990624, 0xf40e3585, 0x106aa070] @
     [0x19a4c116, 0x1e376c08, 0x2748774c, 0x34b0bcb5, 0x391c0cb3, 0x4ed8aa4a, 0x5b9cca4f, 0x682e6ff3] @
     [0x748f82ee, 0x78a5636f, 0x84c87814, 0x8cc70208, 0x90befffa, 0xa4506ceb, 0xbef9a3f7, 0xc67178f2]"

definition H256 :: "w32 list" where
  "H256 = [0x6a09e667, 0xbb67ae85, 0x3c6ef372, 0xa54ff53a,
           0x510e527f, 0x9b05688c, 0x1f83d9ab, 0x5be0cd19]"

definition Ch :: "w32 \<Rightarrow> w32 \<Rightarrow> w32 \<Rightarrow> w32" where
  "Ch x y z = (x AND y) XOR (NOT x AND z)"

definition Maj :: "w32 \<Rightarrow> w32 \<Rightarrow> w32 \<Rightarrow> w32" where
  "Maj x y z = (x AND y) XOR (x AND z) XOR (y AND z)"

definition Sum0 :: "w32 \<Rightarrow> w32" where
  "Sum0 x = word_rotr 2 x XOR word_rotr 13 x XOR word_rotr 22 x"

definition Sum1 :: "w32 \<Rightarrow> w32" where
  "Sum1 x = word_rotr 6 x XOR word_rotr 11 x XOR word_rotr 25 x"

definition sigma0 :: "w32 \<Rightarrow> w32" where
  "sigma0 x = word_rotr 7 x XOR word_rotr 18 x XOR drop_bit 3 x"

definition sigma1 :: "w32 \<Rightarrow> w32" where
  "sigma1 x = word_rotr 17 x XOR word_rotr 19 x XOR drop_bit 10 x"

type_synonym byte = "8 word"

definition be32 :: "w32 \<Rightarrow> byte list" where
  "be32 w = [ucast (drop_bit 24 w), ucast (drop_bit 16 w), ucast (drop_bit 8 w), ucast w]"

definition be64 :: "64 word \<Rightarrow> byte list" where
  "be64 w = map (\<lambda>k. ucast (drop_bit k w)) [56, 48, 40, 32, 24, 16, 8, 0]"

definition sha_pad :: "byte list \<Rightarrow> byte list" where
  "sha_pad m = m @ [0x80] @ replicate ((119 - length m mod 64) mod 64) 0 @ be64 (8 * of_nat (length m))"

fun be_words :: "byte list \<Rightarrow> w32 list" where
  "be_words (a # b # c # d # rest) =
     (push_bit 24 (ucast a) OR push_bit 16 (ucast b) OR push_bit 8 (ucast c) OR ucast d) # be_words rest"
| "be_words _ = []"

fun schedule :: "nat \<Rightarrow> w32 list \<Rightarrow> w32 list" where
  "schedule 0 w = w"
| "schedule (Suc n) w =
     (let l = length w in
      schedule n (w @ [sigma1 (w ! (l - 2)) + w ! (l - 7) + sigma0 (w ! (l - 15)) + w ! (l - 16)]))"

fun round256 :: "w32 list \<Rightarrow> (w32 \<times> w32) \<Rightarrow> w32 list" where
  "round256 [a, b, c, d, e, f, g, h] (k, w) =
     (let t1 = h + Sum1 e + Ch e f g + k + w;
          t2 = Sum0 a + Maj a b c
      in [t1 + t2, a, b, c, d + t1, e, f, g])"
| "round256 st _ = st"

definition compress :: "w32 list \<Rightarrow> w32 list \<Rightarrow> w32 list" where
  "compress hs block = map2 (+) hs (foldl round256 hs (zip K256 (schedule 48 block)))"

fun blocks :: "nat \<Rightarrow> 'a list \<Rightarrow> 'a list list" where
  "blocks 0 xs = []"
| "blocks (Suc n) xs = take 16 xs # blocks n (drop 16 xs)"

definition sha256 :: "byte list \<Rightarrow> byte list" where
  "sha256 m =
     (let ws = be_words (sha_pad m)
      in concat (map be32 (foldl compress H256 (blocks (length ws div 16) ws))))"

definition hmac_sha256 :: "byte list \<Rightarrow> byte list \<Rightarrow> byte list" where
  "hmac_sha256 key msg =
     (let k0 = (if length key > 64 then sha256 key else key);
          k = k0 @ replicate (64 - length k0) 0
      in sha256 (map (\<lambda>b. b XOR 0x5c) k @ sha256 (map (\<lambda>b. b XOR 0x36) k @ msg)))"

definition hexdigit :: "byte \<Rightarrow> char" where
  "hexdigit b = ''0123456789abcdef'' ! unat (b AND 0x0f)"

definition hexdigest :: "byte list \<Rightarrow> string" where
  "hexdigest bs = concat (map (\<lambda>b. [hexdigit (drop_bit 4 b), hexdigit b]) bs)"

text \<open>The bytes of a string: a \<^typ>\<open>char\<close> is one byte of its UTF-8 encoding.\<close>

definition utf8 :: "string \<Rightarrow> byte list" where
  "utf8 s = map of_char s"

text \<open>
  Modelled from the spec: \<^verbatim>\<open>utils.generate_appsecret_proof\<close> is missing from the
  sources; "the proof is a deterministic keyed-hash (HMAC-SHA256) of accessToken using
  appSecret as key, hex-encoded".
\<close>

definition generate_appsecret_proof :: "string \<Rightarrow> string \<Rightarrow> string" where
  "generate_appsecret_proof access_token app_secret =
     hexdigest (hmac_sha256 (utf8 app_secret) (utf8 access_token))"

section \<open>The bot\<close>

definition DEFAULT_API_VERSION :: real where
  "DEFAULT_API_VERSION = 16"

text \<open>
  The keyword arguments that \<^verbatim>\<open>__init__\<close> reads; \<open>None\<close> is a key that was not
  passed.  A version number is the real number that the float denotes.
\<close>

record kwargs =
  kw_api_version :: "real option"
  kw_app_secret :: "string option"
  kw_page_id :: "string option"

text \<open>
  A URL is kept as the format template that built it:
  \<^verbatim>\<open>'https://graph.facebook.com/v{0}'.format(v)\<close> is \<open>GraphUrl v\<close>, and
  \<^verbatim>\<open>'{0}/{1}'.format(u, x)\<close> is \<open>Sub u x\<close>.
\<close>

datatype url = GraphUrl real | Sub url pyval

text \<open>
  The attributes of a \<^verbatim>\<open>Bot\<close>.  \<open>auth_args_attr\<close> is the attribute
  \<^verbatim>\<open>_auth_args\<close>, \<open>None\<close> while \<^verbatim>\<open>hasattr(self, '_auth_args')\<close> is false.
\<close>

record Bot =
  api_version :: real
  num_api_version :: real
  app_secret :: "string option"
  page_id :: string
  graph_url :: url
  access_token :: string
  auth_args_attr :: "pydict option"

text \<open>\<^verbatim>\<open>kwargs.get('api_version') or DEFAULT_API_VERSION\<close>: a zero version is falsy.\<close>

definition Bot_init :: "string \<Rightarrow> kwargs \<Rightarrow> Bot" where
  "Bot_init token kw =
     (let v = (case kw_api_version kw of
                 None \<Rightarrow> DEFAULT_API_VERSION
               | Some x \<Rightarrow> if x = 0 then DEFAULT_API_VERSION else x)
      in \<lparr> api_version = v,
           num_api_version = v,
           app_secret = kw_app_secret kw,
           page_id = (case kw_page_id kw of None \<Rightarrow> ''me'' | Some p \<Rightarrow> p),
           graph_url = GraphUrl v,
           access_token = token,
           auth_args_attr = None \<rparr>)"

section \<open>The world around a call\<close>

datatype http_method = GET | POST | DELETE

text \<open>
  A field handed to \<^verbatim>\<open>MultipartEncoder\<close>: a plain string, the text
  \<^verbatim>\<open>json.dumps(v)\<close>, or a file part \<^verbatim>\<open>(filename, data, content_type)\<close>.
\<close>

datatype field = Text string | JsonText pyval | FilePart string string string

record encoder =
  enc_fields :: "(string \<times> field) list"
  enc_boundary :: string

definition content_type :: "encoder \<Rightarrow> string" where
  "content_type e = ''multipart/form-data; boundary='' @ enc_boundary e"

datatype body = NoBody | JsonBody pyval | MultipartBody encoder

text \<open>The arguments of one call of \<^verbatim>\<open>requests.get\<close>, \<^verbatim>\<open>post\<close> or \<^verbatim>\<open>delete\<close>.\<close>

record request =
  rq_method :: http_method
  rq_url :: url
  rq_params :: pydict
  rq_body :: body
  rq_headers :: "(string \<times> string) list"

text \<open>A response: its status code, and its body decoded as JSON when it is JSON.\<close>

record response =
  status_code :: int
  json_body :: "pyval option"

datatype event =
    FileOpen string
  | FileRead string
  | FileClose string
  | Http request

text \<open>
  Everything a method of \<^verbatim>\<open>Bot\<close> can read or change: the bot itself, the dict
  objects that callers and methods hold by reference (\<open>heap\<close>, with the next free
  address), the file system, the boundaries that the multipart encoder draws, the
  platform behind \<^verbatim>\<open>requests\<close>, and the trace of file and network events so far.
\<close>

record state =
  self :: Bot
  heap :: "nat \<Rightarrow> pydict"
  next_addr :: nat
  files :: "string \<rightharpoonup> string"
  boundaries :: "nat \<Rightarrow> string"
  encoders_made :: nat
  transport :: "request \<Rightarrow> error + response"
  trace :: "event list"

type_synonym 'a result = "(error + 'a) \<times> state"

text \<open>A dict display \<^verbatim>\<open>{...}\<close> creates a new object.\<close>

definition alloc :: "pydict \<Rightarrow> state \<Rightarrow> nat \<times> state" where
  "alloc d s = (next_addr s, s\<lparr>heap := (heap s)(next_addr s := d), next_addr := Suc (next_addr s)\<rparr>)"

text \<open>\<^verbatim>\<open>payload[k] = v\<close> on the object at address \<open>a\<close>.\<close>

definition store :: "nat \<Rightarrow> string \<Rightarrow> pyval \<Rightarrow> state \<Rightarrow> state" where
  "store a k v s = s\<lparr>heap := (heap s)(a := setitem k v (heap s a))\<rparr>"

text \<open>One call of \<^verbatim>\<open>requests\<close>: the request is on the wire, then the transport answers or raises.\<close>

definition http :: "request \<Rightarrow> state \<Rightarrow> response result" where
  "http rq s = (transport s rq, s\<lparr>trace := trace s @ [Http rq]\<rparr>)"

text \<open>\<^verbatim>\<open>response.json()\<close>.\<close>

definition json :: "response \<Rightarrow> error + pyval" where
  "json r = (case json_body r of None \<Rightarrow> Inl JSONDecodeError | Some v \<Rightarrow> Inr v)"

text \<open>\<^verbatim>\<open>requests.post(...).json()\<close> and its siblings: the decoded body, whatever the status.\<close>

definition http_json :: "request \<Rightarrow> state \<Rightarrow> pyval result" where
  "http_json rq s =
     (case http rq s of
        (Inl e, s') \<Rightarrow> (Inl e, s')
      | (Inr r, s') \<Rightarrow> (json r, s'))"

text \<open>\<^verbatim>\<open>MultipartEncoder(payload)\<close> draws a fresh boundary.\<close>

definition MultipartEncoder :: "(string \<times> field) list \<Rightarrow> state \<Rightarrow> encoder \<times> state" where
  "MultipartEncoder payload s =
     (\<lparr>enc_fields = payload, enc_boundary = boundaries s (encoders_made s)\<rparr>,
      s\<lparr>encoders_made := Suc (encoders_made s)\<rparr>)"

text \<open>\<^verbatim>\<open>with open(path, 'rb') as f: file_data = f.read()\<close>.\<close>

definition read_file :: "string \<Rightarrow> state \<Rightarrow> string result" where
  "read_file path s =
     (case files s path of
        None \<Rightarrow> (Inl FileNotFoundError, s)
      | Some file_data \<Rightarrow>
          (Inr file_data, s\<lparr>trace := trace s @ [FileOpen path, FileRead path, FileClose path]\<rparr>))"

text \<open>\<^verbatim>\<open>s.split(c)[-1]\<close>: what follows the last \<open>c\<close>, the whole string without one.\<close>

definition split_last :: "char \<Rightarrow> string \<Rightarrow> string" where
  "split_last c s = rev (takeWhile (\<lambda>x. x \<noteq> c) (rev s))"

definition basename :: "string \<Rightarrow> string" where
  "basename path = split_last (CHR ''/'') path"

text \<open>\<^verbatim>\<open>",".join(fields)\<close>: every item has to be a string.\<close>

fun str_items :: "pyval list \<Rightarrow> error + string list" where
  "str_items [] = Inr []"
| "str_items (PStr x # xs) = (case str_items xs of Inl e \<Rightarrow> Inl e | Inr ys \<Rightarrow> Inr (x # ys))"
| "str_items (_ # xs) = Inl TypeError"

fun join :: "string \<Rightarrow> string list \<Rightarrow> string" where
  "join sep [] = []"
| "join sep [x] = x"
| "join sep (x # y # ys) = x @ sep @ join sep (y # ys)"

section \<open>Methods of the bot\<close>

text \<open>The body of the \<^verbatim>\<open>if not hasattr(self, '_auth_args')\<close> branch: the dict it builds.\<close>

definition new_auth_args :: "Bot \<Rightarrow> pydict" where
  "new_auth_args b =
     (let auth = [(''access_token'', PStr (access_token b))]
      in case app_secret b of
           None \<Rightarrow> auth
         | Some secret \<Rightarrow>
             setitem ''appsecret_proof''
               (PStr (generate_appsecret_proof (access_token b) secret)) auth)"

definition auth_args :: "state \<Rightarrow> pydict \<times> state" where
  "auth_args s =
     (case auth_args_attr (self s) of
        Some a \<Rightarrow> (a, s)
      | None \<Rightarrow>
          (let auth = new_auth_args (self s)
           in (auth, s\<lparr>self := (self s)\<lparr>auth_args_attr := Some auth\<rparr>\<rparr>)))"

definition send_raw :: "nat \<Rightarrow> state \<Rightarrow> pyval result" where
  "send_raw payload s =
     (let request_endpoint = Sub (Sub (graph_url (self s)) (PStr (page_id (self s)))) (PStr ''messages'');
          (auth, s1) = auth_args s
      in http_json \<lparr>rq_method = POST, rq_url = request_endpoint, rq_params = auth,
                    rq_body = JsonBody (PDict (heap s1 payload)), rq_headers = []\<rparr> s1)"

definition send_payload :: "nat \<Rightarrow> state \<Rightarrow> pyval result" where
  "send_payload payload s = send_raw payload s"

definition send_recipient :: "pyval \<Rightarrow> nat \<Rightarrow> NotificationType \<Rightarrow> state \<Rightarrow> pyval result" where
  "send_recipient recipient_id payload notification_type s =
     (let s1 = store payload ''recipient'' (PDict [(''id'', recipient_id)]) s;
          s2 = store payload ''notification_type'' (PStr (nt_value notification_type)) s1
      in send_raw payload s2)"

definition send_message_api16plus :: "pyval \<Rightarrow> pyval \<Rightarrow> NotificationType \<Rightarrow> state \<Rightarrow> pyval result" where
  "send_message_api16plus recipient_id message notification_type s =
     (case py_get recipient_id ''id'' of
        Inl e \<Rightarrow> (Inl e, s)
      | Inr recipient_id' \<Rightarrow>
          (let request_endpoint = Sub (Sub (graph_url (self s)) (PStr (page_id (self s)))) (PStr ''messages'');
               params = [(''recipient'', recipient_id'),
                         (''messaging_type'', PStr ''RESPONSE''),
                         (''message'', message)];
               (auth, s1) = auth_args s;
               params = dict_update params auth
           in http_json \<lparr>rq_method = POST, rq_url = request_endpoint, rq_params = params,
                         rq_body = NoBody, rq_headers = []\<rparr> s1))"

definition send_message :: "pyval \<Rightarrow> pyval \<Rightarrow> NotificationType \<Rightarrow> state \<Rightarrow> pyval result" where
  "send_message recipient_id message notification_type s =
     (if num_api_version (self s) \<ge> 14
      then send_message_api16plus recipient_id message notification_type s
      else (let (payload, s1) = alloc [(''message'', message)] s
            in send_recipient recipient_id payload notification_type s1))"

definition send_tag_message :: "pyval \<Rightarrow> pyval \<Rightarrow> pyval \<Rightarrow> NotificationType \<Rightarrow> state \<Rightarrow> pyval result" where
  "send_tag_message recipient_id message tag notification_type s =
     (let (payload, s1) = alloc [(''message'', message),
                                 (''messaging_type'', PStr ''MESSAGE_TAG''),
                                 (''tag'', tag)] s
      in send_recipient recipient_id payload notification_type s1)"

definition send_attachment ::
  "pyval \<Rightarrow> string \<Rightarrow> string \<Rightarrow> NotificationType \<Rightarrow> bool \<Rightarrow> state \<Rightarrow> pyval result" where
  "send_attachment recipient_id attachment_type attachment_path notification_type is_reusable s =
     (let file_type = attachment_type @ ''/'' @ split_last (CHR ''.'') attachment_path
      in case read_file attachment_path s of
           (Inl e, s1) \<Rightarrow> (Inl e, s1)
         | (Inr file_data, s1) \<Rightarrow>
             (let payload =
                    [(''recipient'', JsonText (PDict [(''id'', recipient_id)])),
                     (''notification_type'', Text (nt_value notification_type)),
                     (''message'', JsonText (PDict
                        [(''attachment'', PDict
                           [(''type'', PStr attachment_type),
                            (''payload'', PDict [(''is_reusable'', PBool is_reusable)])])])),
                     (''filedata'', FilePart (basename attachment_path) file_data file_type)];
                  (multipart_data, s2) = MultipartEncoder payload s1;
                  multipart_header = [(''Content-Type'', content_type multipart_data)];
                  (auth, s3) = auth_args s2
              in http_json
                   \<lparr>rq_method = POST,
                    rq_url = Sub (Sub (graph_url (self s3)) (PStr (page_id (self s3)))) (PStr ''messages''),
                    rq_params = auth,
                    rq_body = MultipartBody multipart_data,
                    rq_headers = multipart_header\<rparr> s3))"

definition send_attachment_url ::
  "pyval \<Rightarrow> string \<Rightarrow> pyval \<Rightarrow> NotificationType \<Rightarrow> state \<Rightarrow> pyval result" where
  "send_attachment_url recipient_id attachment_type attachment_url notification_type s =
     send_message recipient_id
       (PDict [(''attachment'', PDict
          [(''type'', PStr attachment_type),
           (''payload'', PDict [(''url'', attachment_url)])])])
       notification_type s"

definition send_text_message :: "pyval \<Rightarrow> pyval \<Rightarrow> NotificationType \<Rightarrow> state \<Rightarrow> pyval result" where
  "send_text_message recipient_id message notification_type s =
     send_message recipient_id (PDict [(''text'', message)]) notification_type s"

definition send_generic_message :: "pyval \<Rightarrow> pyval \<Rightarrow> NotificationType \<Rightarrow> state \<Rightarrow> pyval result" where
  "send_generic_message recipient_id elements notification_type s =
     send_message recipient_id
       (PDict [(''attachment'', PDict
          [(''type'', PStr ''template''),
           (''payload'', PDict [(''template_type'', PStr ''generic''),
                               (''elements'', elements)])])])
       notification_type s"

definition send_button_message ::
  "pyval \<Rightarrow> pyval \<Rightarrow> pyval \<Rightarrow> NotificationType \<Rightarrow> state \<Rightarrow> pyval result" where
  "send_button_message recipient_id text buttons notification_type s =
     send_message recipient_id
       (PDict [(''attachment'', PDict
          [(''type'', PStr ''template''),
           (''payload'', PDict [(''template_type'', PStr ''button''),
                               (''text'', text),
                               (''buttons'', buttons)])])])
       notification_type s"

text \<open>
  The two loops of \<^verbatim>\<open>send_quick_replies_message\<close>.  \<^verbatim>\<open>not list_of_payloads\<close>
  holds of \<^verbatim>\<open>None\<close> and of the empty list; \<^verbatim>\<open>zip\<close> stops at the shorter list.
\<close>

fun quick_replies_plain :: "pyval list \<Rightarrow> pyval list" where
  "quick_replies_plain [] = []"
| "quick_replies_plain (reply # quick_replies) =
     PDict [(''content_type'', PStr ''text''), (''title'', reply), (''payload'', reply)]
       # quick_replies_plain quick_replies"

fun quick_replies_zip :: "(pyval \<times> pyval) list \<Rightarrow> pyval list" where
  "quick_replies_zip [] = []"
| "quick_replies_zip ((reply, payload) # rest) =
     (if payload = PNone
      then PDict [(''content_type'', PStr ''text''), (''title'', reply), (''payload'', reply)]
      else PDict [(''content_type'', PStr ''text''), (''title'', reply), (''payload'', payload)])
       # quick_replies_zip rest"

definition quick_replies_list :: "pyval list \<Rightarrow> pyval list option \<Rightarrow> pyval list" where
  "quick_replies_list quick_replies list_of_payloads =
     (case list_of_payloads of
        None \<Rightarrow> quick_replies_plain quick_replies
      | Some ps \<Rightarrow>
          if ps = [] then quick_replies_plain quick_replies
          else quick_replies_zip (zip quick_replies ps))"

definition send_quick_replies_message ::
  "pyval \<Rightarrow> pyval \<Rightarrow> pyval list \<Rightarrow> pyval list option \<Rightarrow> state \<Rightarrow> pyval result" where
  "send_quick_replies_message recipient_id text quick_replies list_of_payloads s =
     send_message recipient_id
       (PDict [(''text'', text),
               (''quick_replies'', PList (quick_replies_list quick_replies list_of_payloads))])
       regular s"

definition send_action :: "pyval \<Rightarrow> pyval \<Rightarrow> NotificationType \<Rightarrow> state \<Rightarrow> pyval result" where
  "send_action recipient_id action notification_type s =
     (let (payload, s1) = alloc [(''sender_action'', action)] s
      in send_recipient recipient_id payload notification_type s1)"

definition send_image :: "pyval \<Rightarrow> string \<Rightarrow> NotificationType \<Rightarrow> bool \<Rightarrow> state \<Rightarrow> pyval result" where
  "send_image recipient_id image_path notification_type is_reusable s =
     send_attachment recipient_id ''image'' image_path notification_type is_reusable s"

definition send_image_url :: "pyval \<Rightarrow> pyval \<Rightarrow> NotificationType \<Rightarrow> state \<Rightarrow> pyval result" where
  "send_image_url recipient_id image_url notification_type s =
     send_attachment_url recipient_id ''image'' image_url notification_type s"

definition send_audio :: "pyval \<Rightarrow> string \<Rightarrow> NotificationType \<Rightarrow> state \<Rightarrow> pyval result" where
  "send_audio recipient_id audio_path notification_type s =
     send_attachment recipient_id ''audio'' audio_path notification_type True s"

definition send_audio_url :: "pyval \<Rightarrow> pyval \<Rightarrow> NotificationType \<Rightarrow> state \<Rightarrow> pyval result" where
  "send_audio_url recipient_id audio_url notification_type s =
     send_attachment_url recipient_id ''audio'' audio_url notification_type s"

definition send_video :: "pyval \<Rightarrow> string \<Rightarrow> NotificationType \<Rightarrow> state \<Rightarrow> pyval result" where
  "send_video recipient_id video_path notification_type s =
     send_attachment recipient_id ''video'' video_path notification_type True s"

definition send_video_url :: "pyval \<Rightarrow> pyval \<Rightarrow> NotificationType \<Rightarrow> state \<Rightarrow> pyval result" where
  "send_video_url recipient_id video_url notification_type s =
     send_attachment_url recipient_id ''video'' video_url notification_type s"

definition send_file :: "pyval \<Rightarrow> string \<Rightarrow> NotificationType \<Rightarrow> state \<Rightarrow> pyval result" where
  "send_file recipient_id file_path notification_type s =
     send_attachment recipient_id ''file'' file_path notification_type True s"

definition send_file_url :: "pyval \<Rightarrow> pyval \<Rightarrow> NotificationType \<Rightarrow> state \<Rightarrow> pyval result" where
  "send_file_url recipient_id file_url notification_type s =
     send_attachment_url recipient_id ''file'' file_url notification_type s"

text \<open>
  \<^verbatim>\<open>fields\<close> (here \<open>fields'\<close>) is any value: only a list is joined and sent
  (\<open>fields_params\<close> is the \<^verbatim>\<open>params\<close> dict before the authentication arguments
  are merged in).  The status code is read here and nowhere else.
\<close>

definition fields_params :: "pyval \<Rightarrow> error + pydict" where
  "fields_params fields' =
     (case fields' of
        PList xs \<Rightarrow> (case str_items xs of
                       Inl e \<Rightarrow> Inl e
                     | Inr ys \<Rightarrow> Inr [(''fields'', PStr (join '','' ys))])
      | _ \<Rightarrow> Inr [])"

definition get_user_info :: "pyval \<Rightarrow> pyval \<Rightarrow> state \<Rightarrow> pyval result" where
  "get_user_info recipient_id fields' s =
     (case fields_params fields' of
        Inl e \<Rightarrow> (Inl e, s)
      | Inr params \<Rightarrow>
          (let (auth, s1) = auth_args s;
               params = dict_update params auth;
               request_endpoint = Sub (graph_url (self s1)) recipient_id
           in case http \<lparr>rq_method = GET, rq_url = request_endpoint, rq_params = params,
                          rq_body = NoBody, rq_headers = []\<rparr> s1 of
                (Inl e, s2) \<Rightarrow> (Inl e, s2)
              | (Inr response, s2) \<Rightarrow>
                  if status_code response = 200 then (json response, s2)
                  else (Inr PNone, s2)))"

definition set_get_started :: "pyval \<Rightarrow> state \<Rightarrow> pyval result" where
  "set_get_started gs_obj s =
     (let request_endpoint = Sub (Sub (graph_url (self s)) (PStr (page_id (self s)))) (PStr ''messenger_profile'');
          (auth, s1) = auth_args s
      in http_json \<lparr>rq_method = POST, rq_url = request_endpoint, rq_params = auth,
                    rq_body = JsonBody gs_obj, rq_headers = []\<rparr> s1)"

definition set_persistent_menu :: "pyval \<Rightarrow> state \<Rightarrow> pyval result" where
  "set_persistent_menu pm_obj s =
     (let request_endpoint = Sub (Sub (graph_url (self s)) (PStr (page_id (self s)))) (PStr ''messenger_profile'');
          (auth, s1) = auth_args s
      in http_json \<lparr>rq_method = POST, rq_url = request_endpoint, rq_params = auth,
                    rq_body = JsonBody pm_obj, rq_headers = []\<rparr> s1)"

definition remove_get_started :: "state \<Rightarrow> pyval result" where
  "remove_get_started s =
     (let delete_obj = PDict [(''fields'', PList [PStr ''get_started''])];
          request_endpoint = Sub (Sub (graph_url (self s)) (PStr (page_id (self s)))) (PStr ''messenger_profile'');
          (auth, s1) = auth_args s
      in http_json \<lparr>rq_method = DELETE, rq_url = request_endpoint, rq_params = auth,
                    rq_body = JsonBody delete_obj, rq_headers = []\<rparr> s1)"

definition remove_persistent_menu :: "state \<Rightarrow> pyval result" where
  "remove_persistent_menu s =
     (let delete_obj = PDict [(''fields'', PList [PStr ''persistent_menu''])];
          request_endpoint = Sub (Sub (graph_url (self s)) (PStr (page_id (self s)))) (PStr ''messenger_profile'');
          (auth, s1) = auth_args s
      in http_json \<lparr>rq_method = DELETE, rq_url = request_endpoint, rq_params = auth,
                    rq_body = JsonBody delete_obj, rq_headers = []\<rparr> s1)"

section \<open>Notions for the properties\<close>

text \<open>
  A bot is \<open>cache_ok\<close> when \<^verbatim>\<open>_auth_args\<close> is unset or holds what
  \<^verbatim>\<open>auth_args\<close> stored there: the bots that \<^verbatim>\<open>__init__\<close> and the methods produce.
\<close>

definition cache_ok :: "Bot \<Rightarrow> bool" where
  "cache_ok b = (case auth_args_attr b of None \<Rightarrow> True | Some a \<Rightarrow> a = new_auth_args b)"

text \<open>Two bots with the same configuration, whatever is cached.\<close>

definition same_session :: "Bot \<Rightarrow> Bot \<Rightarrow> bool" where
  "same_session b b' = (b\<lparr>auth_args_attr := None\<rparr> = b'\<lparr>auth_args_attr := None\<rparr>)"

text \<open>
  What a request depends on, of the state it is built in: the URL root, the page, the
  numeric version and the authentication arguments.
\<close>

definition same_config :: "state \<Rightarrow> state \<Rightarrow> bool" where
  "same_config s s' =
     (graph_url (self s) = graph_url (self s') \<and>
      page_id (self s) = page_id (self s') \<and>
      num_api_version (self s) = num_api_version (self s') \<and>
      fst (auth_args s) = fst (auth_args s'))"

text \<open>\<^verbatim>\<open>isinstance(x, dict)\<close>.\<close>

fun is_dict :: "pyval \<Rightarrow> bool" where
  "is_dict (PDict d) = True"
| "is_dict _ = False"

text \<open>The events that a call adds to the trace.\<close>

definition issued :: "(state \<Rightarrow> 'a result) \<Rightarrow> state \<Rightarrow> event list" where
  "issued f s = drop (length (trace s)) (trace (snd (f s)))"

text \<open>
  The payload of a request: everything that the bot built, without the boundary that
  the multipart encoder drew (in the body and in the \<^verbatim>\<open>Content-Type\<close> header).
\<close>

fun body_payload :: "body \<Rightarrow> body" where
  "body_payload (MultipartBody e) = MultipartBody (e\<lparr>enc_boundary := []\<rparr>)"
| "body_payload b = b"

fun event_payloads :: "event list \<Rightarrow> request list" where
  "event_payloads [] = []"
| "event_payloads (Http rq # es) =
     rq\<lparr>rq_body := body_payload (rq_body rq), rq_headers := []\<rparr> # event_payloads es"
| "event_payloads (_ # es) = event_payloads es"

definition outbound :: "(state \<Rightarrow> 'a result) \<Rightarrow> state \<Rightarrow> request list" where
  "outbound f s = event_payloads (issued f s)"

text \<open>The same platform, answering every request with status \<open>c\<close>.\<close>

definition with_status :: "int \<Rightarrow> (request \<Rightarrow> error + response) \<Rightarrow> request \<Rightarrow> error + response" where
  "with_status c t rq = (case t rq of Inl e \<Rightarrow> Inl e | Inr r \<Rightarrow> Inr (r\<lparr>status_code := c\<rparr>))"

text \<open>
  A state to run the methods in: a bot of the given version and secret, one dict that
  a caller built at address 0, one file \<^verbatim>\<open>cat.png\<close>, a platform that answers
  every request with the given status and body.
\<close>

definition sample_state :: "real \<Rightarrow> string option \<Rightarrow> int \<Rightarrow> pyval option \<Rightarrow> state" where
  "sample_state v secret c b =
     \<lparr> self = Bot_init ''TOKEN'' \<lparr>kw_api_version = Some v, kw_app_secret = secret, kw_page_id = None\<rparr>,
       heap = (\<lambda>a. if a = 0
                    then [(''message'', PDict [(''text'', PStr ''hello'')]),
                          (''recipient'', PStr ''stale'')]
                    else []),
       next_addr = 1,
       files = [''cat.png'' \<mapsto> ''PNG''],
       boundaries = (\<lambda>n. replicate (Suc n) (CHR ''b'')),
       encoders_made = 0,
       transport = (\<lambda>rq. Inr \<lparr>status_code = c, json_body = b\<rparr>),
       trace = [] \<rparr>"

section \<open>Facts about the primitives\<close>

text \<open>
  The keyed hash on a published vector: test case 2 of RFC 4231 (key \<^verbatim>\<open>"Jefe"\<close>).
\<close>

lemma hmac_sha256_rfc4231_case_2:
  "generate_appsecret_proof ''what do ya want for nothing?'' ''Jefe'' =
     ''5bdcc146bf60754e6a042426089575c75a003f089d2739839dec58b964ec3843''"
  by code_simp

lemma map_of_setitem: "map_of (setitem k v d) = (map_of d)(k \<mapsto> v)"
  by (induction d) auto

lemma setitem_keys: "fst ` set (setitem k v d) = insert k (fst ` set d)"
  by (induction d) auto

lemma auth_args_frame:
  "heap (snd (auth_args s)) = heap s"
  "next_addr (snd (auth_args s)) = next_addr s"
  "files (snd (auth_args s)) = files s"
  "boundaries (snd (auth_args s)) = boundaries s"
  "encoders_made (snd (auth_args s)) = encoders_made s"
  "transport (snd (auth_args s)) = transport s"
  "trace (snd (auth_args s)) = trace s"
  by (simp_all add: auth_args_def Let_def split: option.splits)

lemma auth_args_self:
  "graph_url (self (snd (auth_args s))) = graph_url (self s)"
  "page_id (self (snd (auth_args s))) = page_id (self s)"
  "num_api_version (self (snd (auth_args s))) = num_api_version (self s)"
  "api_version (self (snd (auth_args s))) = api_version (self s)"
  "access_token (self (snd (auth_args s))) = access_token (self s)"
  "app_secret (self (snd (auth_args s))) = app_secret (self s)"
  by (simp_all add: auth_args_def Let_def split: option.splits)

lemma auth_args_cached: "auth_args_attr (self (snd (auth_args s))) = Some (fst (auth_args s))"
  by (simp add: auth_args_def Let_def split: option.splits)

lemma auth_args_again: "auth_args (snd (auth_args s)) = (fst (auth_args s), snd (auth_args s))"
  by (simp add: auth_args_def Let_def split: option.splits)

lemma auth_args_value: "cache_ok (self s) \<Longrightarrow> fst (auth_args s) = new_auth_args (self s)"
  by (simp add: auth_args_def cache_ok_def Let_def split: option.splits)

lemma new_auth_args_cache [simp]: "new_auth_args (b\<lparr>auth_args_attr := x\<rparr>) = new_auth_args b"
  by (simp add: new_auth_args_def Let_def split: option.splits)

lemma auth_args_cache_ok: "cache_ok (self s) \<Longrightarrow> cache_ok (self (snd (auth_args s)))"
  by (simp add: auth_args_def cache_ok_def Let_def split: option.splits)

lemma Bot_init_cache_ok: "cache_ok (Bot_init token kw)"
  by (simp add: cache_ok_def Bot_init_def Let_def)

lemma issued_http_json:
  "trace (snd (http_json rq s)) = trace s @ [Http rq]"
  by (simp add: http_json_def http_def split: sum.splits prod.splits)

lemma http_json_frame:
  "heap (snd (http_json rq s)) = heap s"
  "next_addr (snd (http_json rq s)) = next_addr s"
  "self (snd (http_json rq s)) = self s"
  by (auto simp add: http_json_def http_def split: sum.splits prod.splits)

lemma send_raw_unfold:
  "send_raw a s =
     http_json \<lparr>rq_method = POST,
                rq_url = Sub (Sub (graph_url (self s)) (PStr (page_id (self s)))) (PStr ''messages''),
                rq_params = fst (auth_args s),
                rq_body = JsonBody (PDict (heap s a)), rq_headers = []\<rparr> (snd (auth_args s))"
  by (simp add: send_raw_def Let_def split_def auth_args_frame)

lemma send_raw_trace:
  "trace (snd (send_raw a s)) = trace s @
     [Http \<lparr>rq_method = POST,
                rq_url = Sub (Sub (graph_url (self s)) (PStr (page_id (self s)))) (PStr ''messages''),
                rq_params = fst (auth_args s),
                rq_body = JsonBody (PDict (heap s a)), rq_headers = []\<rparr>]"
  by (simp add: send_raw_unfold issued_http_json auth_args_frame)

lemma send_raw_frame:
  "heap (snd (send_raw a s)) = heap s"
  "next_addr (snd (send_raw a s)) = next_addr s"
  by (simp_all add: send_raw_unfold http_json_frame auth_args_frame)

lemma store_frame:
  "self (store a k v s) = self s"
  "trace (store a k v s) = trace s"
  "next_addr (store a k v s) = next_addr s"
  "transport (store a k v s) = transport s"
  "heap (store a k v s) = (heap s)(a := setitem k v (heap s a))"
  by (simp_all add: store_def)

lemma auth_args_store: "fst (auth_args (store a k v s)) = fst (auth_args s)"
  by (simp add: auth_args_def store_def Let_def split: option.splits)

lemma send_recipient_heap:
  "heap (snd (send_recipient rid a nt s)) =
     (heap s)(a := setitem ''notification_type'' (PStr (nt_value nt))
                     (setitem ''recipient'' (PDict [(''id'', rid)]) (heap s a)))"
  by (simp add: send_recipient_def Let_def send_raw_frame store_frame)

lemma send_recipient_trace:
  "trace (snd (send_recipient rid a nt s)) = trace s @
     [Http \<lparr>rq_method = POST,
            rq_url = Sub (Sub (graph_url (self s)) (PStr (page_id (self s)))) (PStr ''messages''),
            rq_params = fst (auth_args s),
            rq_body = JsonBody (PDict (setitem ''notification_type'' (PStr (nt_value nt))
                     (setitem ''recipient'' (PDict [(''id'', rid)]) (heap s a)))),
            rq_headers = []\<rparr>]"
  by (simp add: send_recipient_def Let_def send_raw_trace store_frame auth_args_store)

lemma alloc_frame:
  "fst (alloc d s) = next_addr s"
  "self (snd (alloc d s)) = self s"
  "trace (snd (alloc d s)) = trace s"
  "transport (snd (alloc d s)) = transport s"
  "next_addr (snd (alloc d s)) = Suc (next_addr s)"
  "heap (snd (alloc d s)) = (heap s)(next_addr s := d)"
  by (simp_all add: alloc_def)

lemma auth_args_alloc: "fst (auth_args (snd (alloc d s))) = fst (auth_args s)"
  by (simp add: auth_args_def alloc_def Let_def split: option.splits)

lemma dict_update_Nil [simp]: "dict_update d [] = d"
  by (simp add: dict_update_def)

lemma dict_update_Cons [simp]: "dict_update d (kv # rest) = dict_update (setitem (fst kv) (snd kv) d) rest"
  by (simp add: dict_update_def)

lemma send_message_api16plus_trace:
  "py_get rid ''id'' = Inr r \<Longrightarrow>
   trace (snd (send_message_api16plus rid msg nt s)) = trace s @
     [Http \<lparr>rq_method = POST,
            rq_url = Sub (Sub (graph_url (self s)) (PStr (page_id (self s)))) (PStr ''messages''),
            rq_params = dict_update [(''recipient'', r), (''messaging_type'', PStr ''RESPONSE''),
                                     (''message'', msg)] (fst (auth_args s)),
            rq_body = NoBody, rq_headers = []\<rparr>]"
  by (simp add: send_message_api16plus_def Let_def split_def issued_http_json auth_args_frame)

lemma send_message_api16plus_raises:
  "py_get rid ''id'' = Inl e \<Longrightarrow> send_message_api16plus rid msg nt s = (Inl e, s)"
  by (simp add: send_message_api16plus_def)

lemma send_message_legacy_trace:
  "\<not> num_api_version (self s) \<ge> 14 \<Longrightarrow>
   trace (snd (send_message rid msg nt s)) = trace s @
     [Http \<lparr>rq_method = POST,
            rq_url = Sub (Sub (graph_url (self s)) (PStr (page_id (self s)))) (PStr ''messages''),
            rq_params = fst (auth_args s),
            rq_body = JsonBody (PDict [(''message'', msg), (''recipient'', PDict [(''id'', rid)]),
                                       (''notification_type'', PStr (nt_value nt))]),
            rq_headers = []\<rparr>]"
  by (simp add: send_message_def Let_def split_def send_recipient_trace alloc_frame auth_args_alloc)

lemma sample_self:
  "num_api_version (self (sample_state v secret c b)) = (if v = 0 then 16 else v)"
  "graph_url (self (sample_state v secret c b)) = GraphUrl (if v = 0 then 16 else v)"
  "page_id (self (sample_state v secret c b)) = ''me''"
  "access_token (self (sample_state v secret c b)) = ''TOKEN''"
  "app_secret (self (sample_state v secret c b)) = secret"
  "auth_args_attr (self (sample_state v secret c b)) = None"
  by (simp_all add: sample_state_def Bot_init_def DEFAULT_API_VERSION_def Let_def)

lemma sample_auth:
  "fst (auth_args (sample_state v None c b)) = [(''access_token'', PStr ''TOKEN'')]"
  by (simp add: auth_args_def sample_self new_auth_args_def Let_def)

lemma setitem_same: "map_of d k = Some v \<Longrightarrow> setitem k v d = d"
  by (induction d) (auto split: if_splits)

lemma read_file_missing: "files s path = None \<Longrightarrow> read_file path s = (Inl FileNotFoundError, s)"
  by (simp add: read_file_def)

lemma read_file_found:
  "files s path = Some file_data \<Longrightarrow>
   read_file path s =
     (Inr file_data, s\<lparr>trace := trace s @ [FileOpen path, FileRead path, FileClose path]\<rparr>)"
  by (simp add: read_file_def)

lemma auth_args_trace_upd: "fst (auth_args (s\<lparr>trace := t\<rparr>)) = fst (auth_args s)"
  by (simp add: auth_args_def Let_def split: option.splits)

lemma auth_args_encoders_upd: "fst (auth_args (s\<lparr>encoders_made := n\<rparr>)) = fst (auth_args s)"
  by (simp add: auth_args_def Let_def split: option.splits)

lemma send_attachment_trace:
  "files s path = Some file_data \<Longrightarrow>
   trace (snd (send_attachment rid atype path nt reusable s)) = trace s @
     [FileOpen path, FileRead path, FileClose path,
      Http \<lparr>rq_method = POST,
            rq_url = Sub (Sub (graph_url (self s)) (PStr (page_id (self s)))) (PStr ''messages''),
            rq_params = fst (auth_args s),
            rq_body = MultipartBody
              \<lparr>enc_fields =
                 [(''recipient'', JsonText (PDict [(''id'', rid)])),
                  (''notification_type'', Text (nt_value nt)),
                  (''message'', JsonText (PDict
                     [(''attachment'', PDict
                        [(''type'', PStr atype),
                         (''payload'', PDict [(''is_reusable'', PBool reusable)])])])),
                  (''filedata'', FilePart (basename path) file_data
                                   (atype @ ''/'' @ split_last (CHR ''.'') path))],
               enc_boundary = boundaries s (encoders_made s)\<rparr>,
            rq_headers = [(''Content-Type'',
                           ''multipart/form-data; boundary='' @ boundaries s (encoders_made s))]\<rparr>]"
  by (simp add: send_attachment_def read_file_found Let_def split_def MultipartEncoder_def
      issued_http_json auth_args_frame auth_args_self content_type_def
      auth_args_trace_upd auth_args_encoders_upd)

lemma sample_files:
  "files (sample_state v secret c b) ''cat.png'' = Some ''PNG''"
  "files (sample_state v secret c b) ''nothing.png'' = None"
  "boundaries (sample_state v secret c b) (encoders_made (sample_state v secret c b)) = ''b''"
  by (simp_all add: sample_state_def)

lemma json_status [simp]: "json (r\<lparr>status_code := c\<rparr>) = json r"
  by (simp add: json_def)

lemma http_json_result:
  "fst (http_json rq s) = (case transport s rq of Inl e \<Rightarrow> Inl e | Inr r \<Rightarrow> json r)"
  by (simp add: http_json_def http_def split: sum.splits)

lemma auth_args_transport_upd:
  "fst (auth_args (s\<lparr>transport := t\<rparr>)) = fst (auth_args s)"
  "transport (snd (auth_args (s\<lparr>transport := t\<rparr>))) = t"
  "self (snd (auth_args (s\<lparr>transport := t\<rparr>))) = self (snd (auth_args s))"
  "heap (snd (auth_args (s\<lparr>transport := t\<rparr>))) = heap s"
  by (simp_all add: auth_args_def Let_def split: option.splits)

lemma http_json_with_status:
  "transport s' = with_status c (transport s) \<Longrightarrow> fst (http_json rq s') = fst (http_json rq s)"
  by (simp add: http_json_result with_status_def split: sum.splits)

lemma send_raw_ignores_status:
  "fst (send_raw a (s\<lparr>transport := with_status c (transport s)\<rparr>)) = fst (send_raw a s)"
  by (simp add: send_raw_unfold http_json_result auth_args_transport_upd auth_args_frame
      with_status_def split: sum.splits)

lemma store_transport_upd:
  "store a k v (s\<lparr>transport := t\<rparr>) = (store a k v s)\<lparr>transport := t\<rparr>"
  by (simp add: store_def)

lemma alloc_transport_upd:
  "snd (alloc d (s\<lparr>transport := t\<rparr>)) = (snd (alloc d s))\<lparr>transport := t\<rparr>"
  "fst (alloc d (s\<lparr>transport := t\<rparr>)) = fst (alloc d s)"
  by (simp_all add: alloc_def)

lemma send_recipient_ignores_status:
  "fst (send_recipient rid a nt (s\<lparr>transport := with_status c (transport s)\<rparr>)) =
   fst (send_recipient rid a nt s)"
proof -
  let ?s2 = "store a ''notification_type'' (PStr (nt_value nt))
               (store a ''recipient'' (PDict [(''id'', rid)]) s)"
  have "transport ?s2 = transport s"
    by (simp add: store_frame)
  then show ?thesis
    using send_raw_ignores_status [of a c ?s2]
    by (simp add: send_recipient_def Let_def store_transport_upd)
qed

lemma send_message_api16plus_ignores_status:
  "fst (send_message_api16plus rid msg nt (s\<lparr>transport := with_status c (transport s)\<rparr>)) =
   fst (send_message_api16plus rid msg nt s)"
  by (simp add: send_message_api16plus_def Let_def split_def http_json_result
      auth_args_transport_upd auth_args_frame with_status_def split: sum.splits)

lemma send_message_ignores_status:
  "fst (send_message rid msg nt (s\<lparr>transport := with_status c (transport s)\<rparr>)) =
   fst (send_message rid msg nt s)"
proof (cases "14 \<le> num_api_version (self s)")
  case True
  then show ?thesis
    by (simp add: send_message_def send_message_api16plus_ignores_status)
next
  case False
  have "transport (snd (alloc [(''message'', msg)] s)) = transport s"
    by (simp add: alloc_frame)
  then show ?thesis
    using False send_recipient_ignores_status [of rid "next_addr s" nt c "snd (alloc [(''message'', msg)] s)"]
    by (simp add: send_message_def Let_def split_def alloc_transport_upd alloc_frame)
qed

lemma send_attachment_result:
  "files s path = Some file_data \<Longrightarrow>
   fst (send_attachment rid atype path nt reusable s) =
     (case transport s
        \<lparr>rq_method = POST,
         rq_url = Sub (Sub (graph_url (self s)) (PStr (page_id (self s)))) (PStr ''messages''),
         rq_params = fst (auth_args s),
         rq_body = MultipartBody
           \<lparr>enc_fields =
              [(''recipient'', JsonText (PDict [(''id'', rid)])),
               (''notification_type'', Text (nt_value nt)),
               (''message'', JsonText (PDict
                  [(''attachment'', PDict
                     [(''type'', PStr atype),
                      (''payload'', PDict [(''is_reusable'', PBool reusable)])])])),
               (''filedata'', FilePart (basename path) file_data
                                (atype @ ''/'' @ split_last (CHR ''.'') path))],
            enc_boundary = boundaries s (encoders_made s)\<rparr>,
         rq_headers = [(''Content-Type'',
                        ''multipart/form-data; boundary='' @ boundaries s (encoders_made s))]\<rparr> of
        Inl e \<Rightarrow> Inl e
      | Inr r \<Rightarrow> json r)"
  by (simp add: send_attachment_def read_file_found Let_def split_def MultipartEncoder_def
      http_json_result auth_args_frame auth_args_self content_type_def
      auth_args_trace_upd auth_args_encoders_upd)

lemma send_attachment_ignores_status:
  "fst (send_attachment rid atype path nt reusable (s\<lparr>transport := with_status c (transport s)\<rparr>)) =
   fst (send_attachment rid atype path nt reusable s)"
proof (cases "files s path")
  case None
  then show ?thesis
    by (simp add: send_attachment_def read_file_missing)
next
  case (Some file_data)
  then have "files (s\<lparr>transport := with_status c (transport s)\<rparr>) path = Some file_data"
    by simp
  then show ?thesis
    using Some
    by (simp add: send_attachment_result auth_args_transport_upd with_status_def split: sum.splits)
qed

lemma profile_ignores_status:
  "fst (set_get_started obj (s\<lparr>transport := with_status c (transport s)\<rparr>)) = fst (set_get_started obj s)"
  "fst (set_persistent_menu obj (s\<lparr>transport := with_status c (transport s)\<rparr>)) = fst (set_persistent_menu obj s)"
  "fst (remove_get_started (s\<lparr>transport := with_status c (transport s)\<rparr>)) = fst (remove_get_started s)"
  "fst (remove_persistent_menu (s\<lparr>transport := with_status c (transport s)\<rparr>)) = fst (remove_persistent_menu s)"
  by (simp_all add: set_get_started_def set_persistent_menu_def remove_get_started_def
      remove_persistent_menu_def Let_def split_def http_json_result
      auth_args_transport_upd auth_args_frame with_status_def split: sum.splits)

lemma get_user_info_result:
  "fields_params f = Inr params \<Longrightarrow>
   fst (get_user_info rid f s) =
     (case transport s \<lparr>rq_method = GET, rq_url = Sub (graph_url (self s)) rid,
                         rq_params = dict_update params (fst (auth_args s)),
                         rq_body = NoBody, rq_headers = []\<rparr> of
        Inl e \<Rightarrow> Inl e
      | Inr r \<Rightarrow> if status_code r = 200 then json r else Inr PNone)"
  by (simp add: get_user_info_def Let_def split_def http_def auth_args_frame auth_args_self
      split: sum.splits)

lemma sample_transport:
  "transport (sample_state v secret c b) rq = Inr \<lparr>status_code = c, json_body = b\<rparr>"
  by (simp add: sample_state_def)

lemma new_auth_args_secret:
  "app_secret b = Some secret \<Longrightarrow>
   new_auth_args b =
     [(''access_token'', PStr (access_token b)),
      (''appsecret_proof'', PStr (hexdigest (hmac_sha256 (utf8 secret) (utf8 (access_token b)))))]"
  by (simp add: new_auth_args_def generate_appsecret_proof_def)

lemma new_auth_args_no_secret:
  "app_secret b = None \<Longrightarrow> new_auth_args b = [(''access_token'', PStr (access_token b))]"
  by (simp add: new_auth_args_def)

lemma sample_cache_ok: "cache_ok (self (sample_state v secret c b))"
  by (simp add: sample_state_def Bot_init_cache_ok)

lemma quick_replies_plain_map:
  "quick_replies_plain rs =
     map (\<lambda>r. PDict [(''content_type'', PStr ''text''), (''title'', r), (''payload'', r)]) rs"
  by (induction rs) simp_all

lemma quick_replies_zip_map:
  "quick_replies_zip rps =
     map (\<lambda>rp. PDict [(''content_type'', PStr ''text''), (''title'', fst rp),
                       (''payload'', if snd rp = PNone then fst rp else snd rp)]) rps"
  by (induction rps rule: quick_replies_zip.induct) simp_all

lemma quick_replies_list_content_type:
  "e \<in> set (quick_replies_list rs lp) \<Longrightarrow> py_get e ''content_type'' = Inr (PStr ''text'')"
  by (auto simp add: quick_replies_list_def quick_replies_plain_map quick_replies_zip_map
      split: option.splits if_splits)

lemma same_session_fields:
  assumes "same_session b b'"
  shows "graph_url b = graph_url b'" "page_id b = page_id b'"
    "num_api_version b = num_api_version b'" "new_auth_args b = new_auth_args b'"
proof -
  obtain v n sec p g t c where b: "b = \<lparr>api_version = v, num_api_version = n, app_secret = sec,
      page_id = p, graph_url = g, access_token = t, auth_args_attr = c\<rparr>"
    by (cases b) simp
  obtain v' n' sec' p' g' t' c' where b': "b' = \<lparr>api_version = v', num_api_version = n', app_secret = sec',
      page_id = p', graph_url = g', access_token = t', auth_args_attr = c'\<rparr>"
    by (cases b') simp
  from assms have e: "n = n'" "sec = sec'" "p = p'" "g = g'" "t = t'"
    by (simp_all add: same_session_def b b')
  show "graph_url b = graph_url b'" "page_id b = page_id b'"
    "num_api_version b = num_api_version b'" "new_auth_args b = new_auth_args b'"
    by (simp_all add: b b' e new_auth_args_def Let_def split: option.splits)
qed

lemma same_config_session:
  "same_session (self s) (self s') \<Longrightarrow> cache_ok (self s) \<Longrightarrow> cache_ok (self s') \<Longrightarrow> same_config s s'"
  by (simp add: same_config_def same_session_fields auth_args_value)

lemma auth_args_of_self:
  "self t = self u \<Longrightarrow> fst (auth_args t) = fst (auth_args u)"
  "self t = self u \<Longrightarrow> self (snd (auth_args t)) = self (snd (auth_args u))"
  by (simp_all add: auth_args_def Let_def split: option.splits)

lemma same_config_later:
  "self t = self s \<or> self t = self (snd (auth_args s)) \<Longrightarrow> same_config s t"
proof (erule disjE)
  assume "self t = self s"
  then show ?thesis
    using auth_args_of_self(1) [of t s] by (simp add: same_config_def)
next
  assume a: "self t = self (snd (auth_args s))"
  have "fst (auth_args t) = fst (auth_args (snd (auth_args s)))"
    using a by (rule auth_args_of_self(1))
  then show ?thesis
    by (simp add: same_config_def a auth_args_self auth_args_again)
qed

lemma auth_args_self_upd:
  "self (snd (auth_args (store a k v s))) = self (snd (auth_args s))"
  "self (snd (auth_args (snd (alloc d s)))) = self (snd (auth_args s))"
  "self (snd (auth_args (s\<lparr>trace := t\<rparr>))) = self (snd (auth_args s))"
  "self (snd (auth_args (s\<lparr>encoders_made := n\<rparr>))) = self (snd (auth_args s))"
  by (simp_all add: auth_args_def store_def alloc_def Let_def split: option.splits)

lemma send_raw_self: "self (snd (send_raw a s)) = self (snd (auth_args s))"
  by (simp add: send_raw_unfold http_json_frame)

lemma send_recipient_self: "self (snd (send_recipient rid a nt s)) = self (snd (auth_args s))"
  by (simp add: send_recipient_def Let_def send_raw_self auth_args_self_upd)

lemma send_message_api16plus_self:
  "self (snd (send_message_api16plus rid msg nt s)) = self s \<or>
   self (snd (send_message_api16plus rid msg nt s)) = self (snd (auth_args s))"
  by (cases "py_get rid ''id''")
     (simp_all add: send_message_api16plus_def Let_def split_def http_json_frame)

lemma send_message_self:
  "self (snd (send_message rid msg nt s)) = self s \<or>
   self (snd (send_message rid msg nt s)) = self (snd (auth_args s))"
  using send_message_api16plus_self [of rid msg nt s]
  by (simp add: send_message_def Let_def split_def send_recipient_self
      auth_args_self_upd alloc_frame)

lemma send_tag_message_self:
  "self (snd (send_tag_message rid msg tag nt s)) = self (snd (auth_args s))"
  by (simp add: send_tag_message_def Let_def split_def send_recipient_self
      auth_args_self_upd alloc_frame)

lemma send_action_self:
  "self (snd (send_action rid action nt s)) = self (snd (auth_args s))"
  by (simp add: send_action_def Let_def split_def send_recipient_self
      auth_args_self_upd alloc_frame)

lemma http_json_files: "files (snd (http_json rq s)) = files s"
  by (auto simp add: http_json_def http_def split: sum.splits prod.splits)

lemma send_attachment_self_files:
  "(self (snd (send_attachment rid atype path nt reusable s)) = self s \<or>
    self (snd (send_attachment rid atype path nt reusable s)) = self (snd (auth_args s))) \<and>
   files (snd (send_attachment rid atype path nt reusable s)) = files s"
  by (cases "files s path")
     (simp_all add: send_attachment_def read_file_def Let_def split_def MultipartEncoder_def
        http_json_frame http_json_files auth_args_frame auth_args_self_upd)

lemma outbound_send_recipient:
  "same_config s s' \<Longrightarrow> heap s a = heap s' a' \<Longrightarrow>
   outbound (send_recipient rid a nt) s = outbound (send_recipient rid a' nt) s'"
  by (simp add: outbound_def issued_def send_recipient_trace same_config_def)

lemma outbound_send_message:
  assumes "same_config s s'"
  shows "outbound (send_message rid msg nt) s = outbound (send_message rid msg nt) s'"
proof (cases "14 \<le> num_api_version (self s)")
  case True
  then have v: "14 \<le> num_api_version (self s')"
    using assms by (simp add: same_config_def)
  show ?thesis
  proof (cases "py_get rid ''id''")
    case (Inl e)
    with True v show ?thesis
      by (simp add: outbound_def issued_def send_message_def send_message_api16plus_raises)
  next
    case (Inr r)
    with True v assms show ?thesis
      by (simp add: outbound_def issued_def send_message_def send_message_api16plus_trace
          same_config_def)
  qed
next
  case False
  then have v: "\<not> 14 \<le> num_api_version (self s')"
    using assms by (simp add: same_config_def)
  from False v assms show ?thesis
    by (simp add: outbound_def issued_def send_message_legacy_trace same_config_def)
qed

lemma send_tag_message_trace:
  "trace (snd (send_tag_message rid msg tag nt s)) = trace s @
     [Http \<lparr>rq_method = POST,
            rq_url = Sub (Sub (graph_url (self s)) (PStr (page_id (self s)))) (PStr ''messages''),
            rq_params = fst (auth_args s),
            rq_body = JsonBody (PDict [(''message'', msg), (''messaging_type'', PStr ''MESSAGE_TAG''),
                                       (''tag'', tag), (''recipient'', PDict [(''id'', rid)]),
                                       (''notification_type'', PStr (nt_value nt))]),
            rq_headers = []\<rparr>]"
  by (simp add: send_tag_message_def Let_def split_def send_recipient_trace alloc_frame auth_args_alloc)

lemma send_action_trace:
  "trace (snd (send_action rid action nt s)) = trace s @
     [Http \<lparr>rq_method = POST,
            rq_url = Sub (Sub (graph_url (self s)) (PStr (page_id (self s)))) (PStr ''messages''),
            rq_params = fst (auth_args s),
            rq_body = JsonBody (PDict [(''sender_action'', action), (''recipient'', PDict [(''id'', rid)]),
                                       (''notification_type'', PStr (nt_value nt))]),
            rq_headers = []\<rparr>]"
  by (simp add: send_action_def Let_def split_def send_recipient_trace alloc_frame auth_args_alloc)

lemma outbound_send_tag_message:
  "same_config s s' \<Longrightarrow>
   outbound (send_tag_message rid msg tag nt) s = outbound (send_tag_message rid msg tag nt) s'"
  by (simp add: outbound_def issued_def send_tag_message_trace same_config_def)

lemma outbound_send_action:
  "same_config s s' \<Longrightarrow>
   outbound (send_action rid action nt) s = outbound (send_action rid action nt) s'"
  by (simp add: outbound_def issued_def send_action_trace same_config_def)

lemma outbound_send_attachment:
  assumes "same_config s s'" and "files s path = files s' path"
  shows "outbound (send_attachment rid atype path nt reusable) s =
         outbound (send_attachment rid atype path nt reusable) s'"
proof (cases "files s path")
  case None
  with assms(2) have "files s' path = None" by simp
  with None show ?thesis
    by (simp add: outbound_def issued_def send_attachment_def read_file_missing)
next
  case (Some file_data)
  with assms(2) have "files s' path = Some file_data" by simp
  with Some assms(1) show ?thesis
    by (simp add: outbound_def issued_def send_attachment_trace same_config_def)
qed

lemma setitem_twice:
  "setitem ''notification_type'' n (setitem ''recipient'' r
     (setitem ''notification_type'' n (setitem ''recipient'' r d))) =
   setitem ''notification_type'' n (setitem ''recipient'' r d)"
proof -
  let ?d = "setitem ''notification_type'' n (setitem ''recipient'' r d)"
  have "setitem ''recipient'' r ?d = ?d"
    by (rule setitem_same) (simp add: map_of_setitem)
  moreover have "setitem ''notification_type'' n ?d = ?d"
    by (rule setitem_same) (simp add: map_of_setitem)
  ultimately show ?thesis by simp
qed

lemma outbound_send_recipient_again:
  "outbound (send_recipient rid a nt) (snd (send_recipient rid a nt s)) =
   outbound (send_recipient rid a nt) s"
proof -
  let ?t = "snd (send_recipient rid a nt s)"
  have c: "same_config s ?t"
    by (rule same_config_later) (simp add: send_recipient_self)
  have "outbound (send_recipient rid a nt) ?t =
        event_payloads [Http \<lparr>rq_method = POST,
            rq_url = Sub (Sub (graph_url (self s)) (PStr (page_id (self s)))) (PStr ''messages''),
            rq_params = fst (auth_args s),
            rq_body = JsonBody (PDict (setitem ''notification_type'' (PStr (nt_value nt))
                     (setitem ''recipient'' (PDict [(''id'', rid)]) (heap s a)))),
            rq_headers = []\<rparr>]"
    using c
    by (simp add: outbound_def issued_def send_recipient_trace [of rid a nt ?t]
        send_recipient_heap setitem_twice same_config_def)
  then show ?thesis
    by (simp add: outbound_def issued_def send_recipient_trace [of rid a nt s])
qed

lemma send_message_wrappers:
  "send_text_message rid msg nt = send_message rid (PDict [(''text'', msg)]) nt"
  "send_attachment_url rid atype u nt =
     send_message rid (PDict [(''attachment'', PDict
          [(''type'', PStr atype), (''payload'', PDict [(''url'', u)])])]) nt"
  "send_generic_message rid elements nt =
     send_message rid (PDict [(''attachment'', PDict
          [(''type'', PStr ''template''),
           (''payload'', PDict [(''template_type'', PStr ''generic''),
                               (''elements'', elements)])])]) nt"
  "send_button_message rid txt buttons nt =
     send_message rid (PDict [(''attachment'', PDict
          [(''type'', PStr ''template''),
           (''payload'', PDict [(''template_type'', PStr ''button''),
                               (''text'', txt),
                               (''buttons'', buttons)])])]) nt"
  "send_quick_replies_message rid txt rs lp =
     send_message rid (PDict [(''text'', txt),
               (''quick_replies'', PList (quick_replies_list rs lp))]) regular"
  by (rule ext, simp add: send_text_message_def send_attachment_url_def send_generic_message_def
      send_button_message_def send_quick_replies_message_def)+

lemma outbound_send_message_again:
  "outbound (send_message rid msg nt) (snd (send_message rid msg nt s)) =
   outbound (send_message rid msg nt) s"
  by (rule outbound_send_message [symmetric], rule same_config_later, rule send_message_self)

lemma outbound_send_attachment_again:
  "outbound (send_attachment rid atype path nt reusable)
     (snd (send_attachment rid atype path nt reusable s)) =
   outbound (send_attachment rid atype path nt reusable) s"
proof (rule outbound_send_attachment [symmetric])
  show "same_config s (snd (send_attachment rid atype path nt reusable s))"
    by (rule same_config_later) (simp add: send_attachment_self_files)
  show "files s path = files (snd (send_attachment rid atype path nt reusable s)) path"
    by (simp add: send_attachment_self_files)
qed

lemma sample_same_session:
  "same_session (self (sample_state v secret c b)) (self (sample_state v secret c' b'))"
  by (simp add: same_session_def sample_state_def)

text \<open>
  What \<^verbatim>\<open>send_message\<close> does, case by case: the modern path for a recipient with
  \<^verbatim>\<open>get\<close>, the error of \<^verbatim>\<open>recipient_id.get("id")\<close> otherwise, and the legacy path.
\<close>

lemma send_message_cases:
  "(num_api_version (self s) \<ge> 14 \<longrightarrow>
      send_message rid msg nt s = send_message_api16plus rid msg nt s \<and>
      (case py_get rid ''id'' of
         Inl e \<Rightarrow> send_message rid msg nt s = (Inl e, s)
       | Inr r \<Rightarrow>
           issued (send_message rid msg nt) s =
             [Http \<lparr>rq_method = POST,
                    rq_url = Sub (Sub (graph_url (self s)) (PStr (page_id (self s)))) (PStr ''messages''),
                    rq_params = dict_update [(''recipient'', r), (''messaging_type'', PStr ''RESPONSE''),
                                             (''message'', msg)] (fst (auth_args s)),
                    rq_body = NoBody, rq_headers = []\<rparr>])) \<and>
   (num_api_version (self s) < 14 \<longrightarrow>
      send_message rid msg nt s =
        send_recipient rid (next_addr s) nt (snd (alloc [(''message'', msg)] s)) \<and>
      issued (send_message rid msg nt) s =
        [Http \<lparr>rq_method = POST,
               rq_url = Sub (Sub (graph_url (self s)) (PStr (page_id (self s)))) (PStr ''messages''),
               rq_params = fst (auth_args s),
               rq_body = JsonBody (PDict [(''message'', msg), (''recipient'', PDict [(''id'', rid)]),
                                          (''notification_type'', PStr (nt_value nt))]),
               rq_headers = []\<rparr>])"
proof (intro conjI impI)
  assume v: "14 \<le> num_api_version (self s)"
  then show "send_message rid msg nt s = send_message_api16plus rid msg nt s"
    by (simp add: send_message_def)
  show "case py_get rid ''id'' of
         Inl e \<Rightarrow> send_message rid msg nt s = (Inl e, s)
       | Inr r \<Rightarrow>
           issued (send_message rid msg nt) s =
             [Http \<lparr>rq_method = POST,
                    rq_url = Sub (Sub (graph_url (self s)) (PStr (page_id (self s)))) (PStr ''messages''),
                    rq_params = dict_update [(''recipient'', r), (''messaging_type'', PStr ''RESPONSE''),
                                             (''message'', msg)] (fst (auth_args s)),
                    rq_body = NoBody, rq_headers = []\<rparr>]"
  proof (cases "py_get rid ''id''")
    case (Inl e)
    with v show ?thesis
      by (simp add: send_message_def send_message_api16plus_raises)
  next
    case (Inr r)
    with v show ?thesis
      by (simp add: send_message_def issued_def send_message_api16plus_trace)
  qed
next
  assume v: "num_api_version (self s) < 14"
  then show "send_message rid msg nt s =
        send_recipient rid (next_addr s) nt (snd (alloc [(''message'', msg)] s))"
    by (simp add: send_message_def split_def Let_def alloc_frame)
  from v show "issued (send_message rid msg nt) s =
        [Http \<lparr>rq_method = POST,
               rq_url = Sub (Sub (graph_url (self s)) (PStr (page_id (self s)))) (PStr ''messages''),
               rq_params = fst (auth_args s),
               rq_body = JsonBody (PDict [(''message'', msg), (''recipient'', PDict [(''id'', rid)]),
                                          (''notification_type'', PStr (nt_value nt))]),
               rq_headers = []\<rparr>]"
    by (simp add: issued_def send_message_legacy_trace)
qed

lemma send_message_scalar_raises:
  assumes "14 \<le> num_api_version (self s)" and "\<not> is_dict rid"
  shows "send_message rid msg nt s = (Inl AttributeError, s)"
    and "issued (send_message rid msg nt) s = []"
proof -
  from assms(2) have "py_get rid ''id'' = Inl AttributeError"
    by (cases rid) simp_all
  with assms(1) show "send_message rid msg nt s = (Inl AttributeError, s)"
    by (simp add: send_message_def send_message_api16plus_raises)
  then show "issued (send_message rid msg nt) s = []"
    by (simp add: issued_def)
qed

section \<open>Properties\<close>

text \<open>
  C5.  For every payload mapping, recipient id and notification type,
  \<^verbatim>\<open>send_recipient\<close> sets \<^verbatim>\<open>payload['recipient']\<close> to \<^verbatim>\<open>{'id': recipient_id}\<close>
  and \<^verbatim>\<open>payload['notification_type']\<close> to the string token of the notification type
  (REGULAR, SILENT_PUSH or NO_PUSH), leaves every other key of the payload as it was, and
  dispatches the payload as the JSON body of one POST.
\<close>

theorem send_recipient_sets_recipient:
  "map_of (heap (snd (send_recipient rid a nt s)) a) ''recipient'' = Some (PDict [(''id'', rid)]) \<and>
   map_of (heap (snd (send_recipient rid a nt s)) a) ''notification_type'' = Some (PStr (nt_value nt)) \<and>
   nt_value regular = ''REGULAR'' \<and> nt_value silent_push = ''SILENT_PUSH'' \<and> nt_value no_push = ''NO_PUSH'' \<and>
   (\<forall>k. k \<noteq> ''recipient'' \<and> k \<noteq> ''notification_type'' \<longrightarrow>
        map_of (heap (snd (send_recipient rid a nt s)) a) k = map_of (heap s a) k) \<and>
   issued (send_recipient rid a nt) s =
     [Http \<lparr>rq_method = POST,
            rq_url = Sub (Sub (graph_url (self s)) (PStr (page_id (self s)))) (PStr ''messages''),
            rq_params = fst (auth_args s),
            rq_body = JsonBody (PDict (heap (snd (send_recipient rid a nt s)) a)),
            rq_headers = []\<rparr>]"
  by (simp add: send_recipient_heap send_recipient_trace issued_def map_of_setitem)

theorem send_recipient_sets_recipient_witness:
  "''message'' \<noteq> ''recipient'' \<and> ''message'' \<noteq> ''notification_type'' \<and>
   map_of (heap (snd (send_recipient (PStr ''42'') 0 silent_push (sample_state 13 None 200 None))) 0)
     ''message'' = Some (PDict [(''text'', PStr ''hello'')]) \<and>
   map_of (heap (snd (send_recipient (PStr ''42'') 0 silent_push (sample_state 13 None 200 None))) 0)
     ''notification_type'' = Some (PStr ''SILENT_PUSH'')"
  using send_recipient_sets_recipient [of "PStr ''42''" 0 silent_push "sample_state 13 None 200 None"]
  by (simp add: sample_state_def)

text \<open>
  C1.  \<^verbatim>\<open>send_message\<close> branches on the numeric API version of the bot: from 14.0 on it
  is to send \<^verbatim>\<open>{recipient, messaging_type: "RESPONSE", message}\<close> as the query
  parameters of a POST without a body, below 14.0 it sends the recipient-wrapped JSON body
  through \<^verbatim>\<open>send_recipient\<close>.  The code does so for a recipient that is a mapping, and
  below 14.0 for every recipient.  With a recipient id that is a plain string, as the
  docstrings have it, and version 16.0 (the default), \<^verbatim>\<open>recipient_id.get("id")\<close>
  raises: the result is \<^verbatim>\<open>AttributeError\<close>, the state is unchanged and no request is
  issued.
\<close>

theorem send_message_scalar_recipient_not_sent:
  "num_api_version (Bot_init ''TOKEN''
      \<lparr>kw_api_version = None, kw_app_secret = None, kw_page_id = None\<rparr>) = 16 \<and>
   num_api_version (self (sample_state 16 None 200 None)) = 16 \<and>
   send_message (PStr ''42'') (PDict [(''text'', PStr ''hi'')]) regular (sample_state 16 None 200 None) =
     (Inl AttributeError, sample_state 16 None 200 None) \<and>
   issued (send_message (PStr ''42'') (PDict [(''text'', PStr ''hi'')]) regular)
          (sample_state 16 None 200 None) = [] \<and>
   issued (send_message (PDict [(''id'', PStr ''42'')]) (PDict [(''text'', PStr ''hi'')]) regular)
          (sample_state 16 None 200 None) =
     [Http \<lparr>rq_method = POST,
            rq_url = Sub (Sub (GraphUrl 16) (PStr ''me'')) (PStr ''messages''),
            rq_params = [(''recipient'', PStr ''42''), (''messaging_type'', PStr ''RESPONSE''),
                         (''message'', PDict [(''text'', PStr ''hi'')]),
                         (''access_token'', PStr ''TOKEN'')],
            rq_body = NoBody, rq_headers = []\<rparr>] \<and>
   issued (send_message (PStr ''42'') (PDict [(''text'', PStr ''hi'')]) regular)
          (sample_state 13 None 200 None) =
     [Http \<lparr>rq_method = POST,
            rq_url = Sub (Sub (GraphUrl 13) (PStr ''me'')) (PStr ''messages''),
            rq_params = [(''access_token'', PStr ''TOKEN'')],
            rq_body = JsonBody (PDict [(''message'', PDict [(''text'', PStr ''hi'')]),
                                       (''recipient'', PDict [(''id'', PStr ''42'')]),
                                       (''notification_type'', PStr ''REGULAR'')]),
            rq_headers = []\<rparr>]"
  using send_message_scalar_raises [of "sample_state 16 None 200 None" "PStr ''42''"
          "PDict [(''text'', PStr ''hi'')]" regular]
        send_message_cases [of "sample_state 16 None 200 None" "PDict [(''id'', PStr ''42'')]"
          "PDict [(''text'', PStr ''hi'')]" regular]
        send_message_cases [of "sample_state 13 None 200 None" "PStr ''42''"
          "PDict [(''text'', PStr ''hi'')]" regular]
  by (simp add: sample_self sample_auth Bot_init_def DEFAULT_API_VERSION_def)


text \<open>
  C8.  Whatever the API version of the bot, \<^verbatim>\<open>send_tag_message\<close> builds
  \<^verbatim>\<open>{message, messaging_type: "MESSAGE_TAG", tag}\<close> and sends it with
  \<^verbatim>\<open>send_recipient\<close>: one POST whose JSON body is that dict with the recipient and the
  notification type added.  The events do not change when the numeric version of the bot
  is replaced by any other, 14.0 and above included.
\<close>

theorem send_tag_message_always_legacy:
  "send_tag_message rid msg tag nt s =
     send_recipient rid (next_addr s) nt
       (snd (alloc [(''message'', msg), (''messaging_type'', PStr ''MESSAGE_TAG''), (''tag'', tag)] s)) \<and>
   issued (send_tag_message rid msg tag nt) s =
     [Http \<lparr>rq_method = POST,
            rq_url = Sub (Sub (graph_url (self s)) (PStr (page_id (self s)))) (PStr ''messages''),
            rq_params = fst (auth_args s),
            rq_body = JsonBody (PDict [(''message'', msg), (''messaging_type'', PStr ''MESSAGE_TAG''),
                                       (''tag'', tag), (''recipient'', PDict [(''id'', rid)]),
                                       (''notification_type'', PStr (nt_value nt))]),
            rq_headers = []\<rparr>] \<and>
   issued (send_tag_message rid msg tag nt) (s\<lparr>self := (self s)\<lparr>num_api_version := v\<rparr>\<rparr>) =
     issued (send_tag_message rid msg tag nt) s"
proof -
  have tr: "trace (snd (send_tag_message rid msg tag nt t)) = trace t @
     [Http \<lparr>rq_method = POST,
            rq_url = Sub (Sub (graph_url (self t)) (PStr (page_id (self t)))) (PStr ''messages''),
            rq_params = fst (auth_args t),
            rq_body = JsonBody (PDict [(''message'', msg), (''messaging_type'', PStr ''MESSAGE_TAG''),
                                       (''tag'', tag), (''recipient'', PDict [(''id'', rid)]),
                                       (''notification_type'', PStr (nt_value nt))]),
            rq_headers = []\<rparr>]" for t
    by (simp add: send_tag_message_def Let_def split_def send_recipient_trace alloc_frame auth_args_alloc)
  have au: "fst (auth_args (s\<lparr>self := (self s)\<lparr>num_api_version := v\<rparr>\<rparr>)) = fst (auth_args s)"
    by (simp add: auth_args_def new_auth_args_def Let_def split: option.splits)
  show ?thesis
    by (simp add: issued_def tr au) (simp add: send_tag_message_def split_def alloc_frame)
qed

theorem send_tag_message_always_legacy_witness:
  "issued (send_tag_message (PStr ''42'') (PDict [(''text'', PStr ''hi'')]) (PStr human_agent) no_push)
          (sample_state 16 None 200 None) =
     [Http \<lparr>rq_method = POST,
            rq_url = Sub (Sub (GraphUrl 16) (PStr ''me'')) (PStr ''messages''),
            rq_params = [(''access_token'', PStr ''TOKEN'')],
            rq_body = JsonBody (PDict [(''message'', PDict [(''text'', PStr ''hi'')]),
                                       (''messaging_type'', PStr ''MESSAGE_TAG''),
                                       (''tag'', PStr ''HUMAN_AGENT''),
                                       (''recipient'', PDict [(''id'', PStr ''42'')]),
                                       (''notification_type'', PStr ''NO_PUSH'')]),
            rq_headers = []\<rparr>]"
  using send_tag_message_always_legacy [of "PStr ''42''" "PDict [(''text'', PStr ''hi'')]"
          "PStr human_agent" no_push "sample_state 16 None 200 None" 16]
  by (simp add: sample_self sample_auth human_agent_def)

text \<open>
  C10.  \<^verbatim>\<open>send_recipient\<close> writes into the object that the caller passed: after the
  call the dict at the caller's address holds the two keys (a value that the caller had
  stored under either key is overwritten), no new object has been created, every other
  object is as it was, and the caller's dict differs from what it was before unless it
  already held exactly these two values.
\<close>

theorem send_recipient_mutates_payload:
  "heap (snd (send_recipient rid a nt s)) a =
     setitem ''notification_type'' (PStr (nt_value nt))
       (setitem ''recipient'' (PDict [(''id'', rid)]) (heap s a)) \<and>
   next_addr (snd (send_recipient rid a nt s)) = next_addr s \<and>
   (\<forall>b. b \<noteq> a \<longrightarrow> heap (snd (send_recipient rid a nt s)) b = heap s b) \<and>
   (map_of (heap s a) ''recipient'' \<noteq> Some (PDict [(''id'', rid)]) \<or>
    map_of (heap s a) ''notification_type'' \<noteq> Some (PStr (nt_value nt))
      \<longrightarrow> heap (snd (send_recipient rid a nt s)) a \<noteq> heap s a)"
proof -
  let ?d = "setitem ''notification_type'' (PStr (nt_value nt))
       (setitem ''recipient'' (PDict [(''id'', rid)]) (heap s a))"
  have m: "map_of ?d ''recipient'' = Some (PDict [(''id'', rid)])"
          "map_of ?d ''notification_type'' = Some (PStr (nt_value nt))"
    by (simp_all add: map_of_setitem)
  have "?d \<noteq> heap s a"
    if "map_of (heap s a) ''recipient'' \<noteq> Some (PDict [(''id'', rid)]) \<or>
        map_of (heap s a) ''notification_type'' \<noteq> Some (PStr (nt_value nt))"
    using that m by metis
  then show ?thesis
    by (simp add: send_recipient_heap send_recipient_def Let_def send_raw_frame store_frame)
qed

theorem send_recipient_mutates_payload_witness:
  "map_of (heap (sample_state 13 None 200 None) 0) ''recipient'' = Some (PStr ''stale'') \<and>
   heap (snd (send_recipient (PStr ''42'') 0 regular (sample_state 13 None 200 None))) 0 =
     [(''message'', PDict [(''text'', PStr ''hello'')]),
      (''recipient'', PDict [(''id'', PStr ''42'')]),
      (''notification_type'', PStr ''REGULAR'')] \<and>
   heap (snd (send_recipient (PStr ''42'') 0 regular (sample_state 13 None 200 None))) 0 \<noteq>
     heap (sample_state 13 None 200 None) 0 \<and>
   heap (snd (send_recipient (PStr ''42'') 0 regular (sample_state 13 None 200 None))) 1 =
     heap (sample_state 13 None 200 None) 1"
  using send_recipient_mutates_payload [of "PStr ''42''" 0 regular "sample_state 13 None 200 None"]
  by (simp add: sample_state_def)

text \<open>
  C4.  In the modern path the recipient is read with \<^verbatim>\<open>recipient_id.get("id")\<close>.  On
  a plain identifier (a string or a number) this is not an empty value: the value has no
  \<^verbatim>\<open>get\<close>, the call raises \<^verbatim>\<open>AttributeError\<close>, and \<^verbatim>\<open>send_text_message\<close> at
  version 16.0 returns the error with the state unchanged and nothing sent.  The paths
  beside it take the same identifier and wrap it: \<^verbatim>\<open>send_action\<close> sends
  \<^verbatim>\<open>{'id': recipient_id}\<close> as the recipient.
\<close>

theorem recipient_id_get_raises:
  "py_get (PStr ''42'') ''id'' = Inl AttributeError \<and>
   py_get (PInt 42) ''id'' = Inl AttributeError \<and>
   py_get (PDict [(''id'', PStr ''42'')]) ''id'' = Inr (PStr ''42'') \<and>
   send_text_message (PStr ''42'') (PStr ''hi'') regular (sample_state 16 None 200 None) =
     (Inl AttributeError, sample_state 16 None 200 None) \<and>
   issued (send_text_message (PStr ''42'') (PStr ''hi'') regular) (sample_state 16 None 200 None) = [] \<and>
   issued (send_action (PStr ''42'') (PStr ''typing_on'') regular) (sample_state 16 None 200 None) =
     [Http \<lparr>rq_method = POST,
            rq_url = Sub (Sub (GraphUrl 16) (PStr ''me'')) (PStr ''messages''),
            rq_params = [(''access_token'', PStr ''TOKEN'')],
            rq_body = JsonBody (PDict [(''sender_action'', PStr ''typing_on''),
                                       (''recipient'', PDict [(''id'', PStr ''42'')]),
                                       (''notification_type'', PStr ''REGULAR'')]),
            rq_headers = []\<rparr>]"
  by (simp add: send_text_message_def send_message_def send_message_api16plus_def
      issued_def send_action_trace sample_self sample_auth)


text \<open>
  C7.  For every recipient and attachment type, \<^verbatim>\<open>send_attachment\<close> on a path that
  does not exist fails with the file error, the state unchanged and no request issued.
  On a path that exists the file is opened, read and closed, in this order, before the
  single request (the multipart POST that carries the bytes read) goes out.
\<close>

theorem send_attachment_reads_file_first:
  "(files s path = None \<longrightarrow>
      send_attachment rid atype path nt reusable s = (Inl FileNotFoundError, s) \<and>
      issued (send_attachment rid atype path nt reusable) s = []) \<and>
   (files s path = Some file_data \<longrightarrow>
      issued (send_attachment rid atype path nt reusable) s =
        [FileOpen path, FileRead path, FileClose path,
         Http \<lparr>rq_method = POST,
               rq_url = Sub (Sub (graph_url (self s)) (PStr (page_id (self s)))) (PStr ''messages''),
               rq_params = fst (auth_args s),
               rq_body = MultipartBody
                 \<lparr>enc_fields =
                    [(''recipient'', JsonText (PDict [(''id'', rid)])),
                     (''notification_type'', Text (nt_value nt)),
                     (''message'', JsonText (PDict
                        [(''attachment'', PDict
                           [(''type'', PStr atype),
                            (''payload'', PDict [(''is_reusable'', PBool reusable)])])])),
                     (''filedata'', FilePart (basename path) file_data
                                      (atype @ ''/'' @ split_last (CHR ''.'') path))],
                  enc_boundary = boundaries s (encoders_made s)\<rparr>,
               rq_headers = [(''Content-Type'',
                              ''multipart/form-data; boundary='' @ boundaries s (encoders_made s))]\<rparr>])"
  by (simp add: issued_def send_attachment_trace)
     (simp add: send_attachment_def read_file_missing)

theorem send_attachment_reads_file_first_witness:
  "files (sample_state 16 None 200 None) ''nothing.png'' = None \<and>
   files (sample_state 16 None 200 None) ''cat.png'' = Some ''PNG'' \<and>
   send_attachment (PStr ''42'') ''image'' ''nothing.png'' regular True (sample_state 16 None 200 None) =
     (Inl FileNotFoundError, sample_state 16 None 200 None) \<and>
   issued (send_attachment (PStr ''42'') ''image'' ''cat.png'' regular True) (sample_state 16 None 200 None) =
     [FileOpen ''cat.png'', FileRead ''cat.png'', FileClose ''cat.png'',
      Http \<lparr>rq_method = POST,
            rq_url = Sub (Sub (GraphUrl 16) (PStr ''me'')) (PStr ''messages''),
            rq_params = [(''access_token'', PStr ''TOKEN'')],
            rq_body = MultipartBody
              \<lparr>enc_fields =
                 [(''recipient'', JsonText (PDict [(''id'', PStr ''42'')])),
                  (''notification_type'', Text ''REGULAR''),
                  (''message'', JsonText (PDict
                     [(''attachment'', PDict
                        [(''type'', PStr ''image''),
                         (''payload'', PDict [(''is_reusable'', PBool True)])])])),
                  (''filedata'', FilePart ''cat.png'' ''PNG'' ''image/png'')],
               enc_boundary = ''b''\<rparr>,
            rq_headers = [(''Content-Type'', ''multipart/form-data; boundary=b'')]\<rparr>]"
  using send_attachment_reads_file_first [of "sample_state 16 None 200 None" "''nothing.png''"
          "PStr ''42''" "''image''" regular True]
        send_attachment_reads_file_first [of "sample_state 16 None 200 None" "''cat.png''"
          "PStr ''42''" "''image''" regular True "''PNG''"]
  by (simp add: sample_files sample_self sample_auth basename_def split_last_def)

text \<open>
  C3.  For every recipient and every answer of the transport to the GET of
  \<^verbatim>\<open>get_user_info\<close>: with status 200 the result is the decoded JSON body
  (\<^verbatim>\<open>response.json()\<close>, which raises when the body is not JSON), with any other
  status the result is \<^verbatim>\<open>None\<close>, whatever the body.  It is the only method that
  reads the status: the result of every other method that makes a request is the same
  when the platform answers with any other status code \<open>c\<close>.
\<close>

theorem get_user_info_status_gate:
  "(fields_params f = Inr params \<and>
    transport s \<lparr>rq_method = GET, rq_url = Sub (graph_url (self s)) rid,
                  rq_params = dict_update params (fst (auth_args s)),
                  rq_body = NoBody, rq_headers = []\<rparr> = Inr r \<longrightarrow>
      (status_code r = 200 \<longrightarrow> fst (get_user_info rid f s) = json r) \<and>
      (status_code r \<noteq> 200 \<longrightarrow> fst (get_user_info rid f s) = Inr PNone)) \<and>
   fst (send_raw a (s\<lparr>transport := with_status c (transport s)\<rparr>)) = fst (send_raw a s) \<and>
   fst (send_recipient rid a nt (s\<lparr>transport := with_status c (transport s)\<rparr>)) =
     fst (send_recipient rid a nt s) \<and>
   fst (send_message rid msg nt (s\<lparr>transport := with_status c (transport s)\<rparr>)) =
     fst (send_message rid msg nt s) \<and>
   fst (send_message_api16plus rid msg nt (s\<lparr>transport := with_status c (transport s)\<rparr>)) =
     fst (send_message_api16plus rid msg nt s) \<and>
   fst (send_attachment rid atype path nt reusable (s\<lparr>transport := with_status c (transport s)\<rparr>)) =
     fst (send_attachment rid atype path nt reusable s) \<and>
   fst (set_get_started obj (s\<lparr>transport := with_status c (transport s)\<rparr>)) =
     fst (set_get_started obj s) \<and>
   fst (set_persistent_menu obj (s\<lparr>transport := with_status c (transport s)\<rparr>)) =
     fst (set_persistent_menu obj s) \<and>
   fst (remove_get_started (s\<lparr>transport := with_status c (transport s)\<rparr>)) =
     fst (remove_get_started s) \<and>
   fst (remove_persistent_menu (s\<lparr>transport := with_status c (transport s)\<rparr>)) =
     fst (remove_persistent_menu s)"
  by (simp add: get_user_info_result send_raw_ignores_status send_recipient_ignores_status
      send_message_ignores_status send_message_api16plus_ignores_status
      send_attachment_ignores_status profile_ignores_status)


theorem get_user_info_status_gate_witness:
  "fields_params (PList [PStr ''first_name'', PStr ''last_name'']) =
     Inr [(''fields'', PStr ''first_name,last_name'')] \<and>
   fst (get_user_info (PStr ''42'') (PList [PStr ''first_name'', PStr ''last_name''])
          (sample_state 16 None 200 (Some (PDict [(''first_name'', PStr ''Ada'')])))) =
     Inr (PDict [(''first_name'', PStr ''Ada'')]) \<and>
   fst (get_user_info (PStr ''42'') (PList [PStr ''first_name'', PStr ''last_name''])
          (sample_state 16 None 404 (Some (PDict [(''error'', PStr ''unknown user'')])))) =
     Inr PNone"
  using get_user_info_status_gate
          [where f = "PList [PStr ''first_name'', PStr ''last_name'']"
             and params = "[(''fields'', PStr ''first_name,last_name'')]"
             and rid = "PStr ''42''"
             and s = "sample_state 16 None 200 (Some (PDict [(''first_name'', PStr ''Ada'')]))"
             and r = "\<lparr>status_code = 200, json_body = Some (PDict [(''first_name'', PStr ''Ada'')])\<rparr>"]
        get_user_info_status_gate
          [where f = "PList [PStr ''first_name'', PStr ''last_name'']"
             and params = "[(''fields'', PStr ''first_name,last_name'')]"
             and rid = "PStr ''42''"
             and s = "sample_state 16 None 404 (Some (PDict [(''error'', PStr ''unknown user'')]))"
             and r = "\<lparr>status_code = 404, json_body = Some (PDict [(''error'', PStr ''unknown user'')])\<rparr>"]
  by (simp add: fields_params_def sample_transport json_def)

text \<open>
  C2.  For every bot, as \<^verbatim>\<open>__init__\<close> builds it and as \<^verbatim>\<open>auth_args\<close> leaves it,
  \<^verbatim>\<open>auth_args\<close> returns a mapping that contains the access token.  With an application
  secret it also holds \<^verbatim>\<open>appsecret_proof\<close>, the hex-encoded HMAC-SHA256 of the access
  token keyed with the secret; without one the key \<^verbatim>\<open>appsecret_proof\<close> is not in the
  mapping.  A second read returns the same mapping.
\<close>

theorem auth_args_appsecret_proof:
  "cache_ok (Bot_init token kw) \<and>
   (cache_ok (self s) \<longrightarrow>
      map_of (fst (auth_args s)) ''access_token'' = Some (PStr (access_token (self s))) \<and>
      (\<forall>secret. app_secret (self s) = Some secret \<longrightarrow>
         fst (auth_args s) =
           [(''access_token'', PStr (access_token (self s))),
            (''appsecret_proof'',
               PStr (hexdigest (hmac_sha256 (utf8 secret) (utf8 (access_token (self s))))))]) \<and>
      (app_secret (self s) = None \<longrightarrow>
         fst (auth_args s) = [(''access_token'', PStr (access_token (self s)))] \<and>
         ''appsecret_proof'' \<notin> fst ` set (fst (auth_args s))) \<and>
      cache_ok (self (snd (auth_args s))) \<and>
      auth_args (snd (auth_args s)) = (fst (auth_args s), snd (auth_args s)))"
proof (intro conjI impI allI)
  show "cache_ok (Bot_init token kw)"
    by (rule Bot_init_cache_ok)
next
  assume ok: "cache_ok (self s)"
  then have v: "fst (auth_args s) = new_auth_args (self s)"
    by (rule auth_args_value)
  show "map_of (fst (auth_args s)) ''access_token'' = Some (PStr (access_token (self s)))"
    by (cases "app_secret (self s)") (simp_all add: v new_auth_args_secret new_auth_args_no_secret)
  show "cache_ok (self (snd (auth_args s)))"
    using ok by (rule auth_args_cache_ok)
  show "auth_args (snd (auth_args s)) = (fst (auth_args s), snd (auth_args s))"
    by (rule auth_args_again)
  {
    fix secret
    assume "app_secret (self s) = Some secret"
    then show "fst (auth_args s) =
           [(''access_token'', PStr (access_token (self s))),
            (''appsecret_proof'',
               PStr (hexdigest (hmac_sha256 (utf8 secret) (utf8 (access_token (self s))))))]"
      by (simp add: v new_auth_args_secret)
  }
  {
    assume n: "app_secret (self s) = None"
    then show "fst (auth_args s) = [(''access_token'', PStr (access_token (self s)))]"
      by (simp add: v new_auth_args_no_secret)
    from n show "''appsecret_proof'' \<notin> fst ` set (fst (auth_args s))"
      by (simp add: v new_auth_args_no_secret)
  }
qed

theorem auth_args_appsecret_proof_witness:
  "cache_ok (self (sample_state 16 (Some ''SECRET'') 200 None)) \<and>
   cache_ok (self (sample_state 16 None 200 None)) \<and>
   fst (auth_args (sample_state 16 (Some ''SECRET'') 200 None)) =
     [(''access_token'', PStr ''TOKEN''),
      (''appsecret_proof'', PStr (hexdigest (hmac_sha256 (utf8 ''SECRET'') (utf8 ''TOKEN''))))] \<and>
   fst (auth_args (sample_state 16 None 200 None)) = [(''access_token'', PStr ''TOKEN'')]"
  using auth_args_appsecret_proof [of "''TOKEN''" "\<lparr>kw_api_version = Some 16, kw_app_secret = Some ''SECRET'', kw_page_id = None\<rparr>"
          "sample_state 16 (Some ''SECRET'') 200 None"]
        auth_args_appsecret_proof [of "''TOKEN''" "\<lparr>kw_api_version = Some 16, kw_app_secret = None, kw_page_id = None\<rparr>"
          "sample_state 16 None 200 None"]
  by (simp add: sample_cache_ok sample_self)

text \<open>
  C6.  \<^verbatim>\<open>send_quick_replies_message\<close> pairs the replies with the payloads of the
  parallel list, index by index (\<^verbatim>\<open>zip\<close>: as far as both lists reach).  Without a
  payload list (\<^verbatim>\<open>None\<close>, or an empty one) every reply's payload is the reply itself;
  with one, a payload entry that is \<^verbatim>\<open>None\<close> is replaced by the reply's own text.
  Every entry has \<^verbatim>\<open>content_type\<close> \<^verbatim>\<open>"text"\<close>.  Replies \<^verbatim>\<open>["Yes", "No"]\<close> with
  payloads \<^verbatim>\<open>["Y", None]\<close> give the payloads \<^verbatim>\<open>"Y"\<close> and \<^verbatim>\<open>"No"\<close>.  The list is
  sent as \<^verbatim>\<open>quick_replies\<close> of the message, with the default notification type.
\<close>

theorem quick_replies_default_payload:
  "(lp = None \<or> lp = Some [] \<longrightarrow>
      quick_replies_list rs lp =
        map (\<lambda>r. PDict [(''content_type'', PStr ''text''), (''title'', r), (''payload'', r)]) rs) \<and>
   (lp = Some ps \<and> ps \<noteq> [] \<longrightarrow>
      length (quick_replies_list rs lp) = min (length rs) (length ps) \<and>
      (\<forall>i < min (length rs) (length ps).
         quick_replies_list rs lp ! i =
           PDict [(''content_type'', PStr ''text''), (''title'', rs ! i),
                  (''payload'', if ps ! i = PNone then rs ! i else ps ! i)])) \<and>
   (\<forall>e \<in> set (quick_replies_list rs lp). py_get e ''content_type'' = Inr (PStr ''text'')) \<and>
   quick_replies_list [PStr ''Yes'', PStr ''No''] (Some [PStr ''Y'', PNone]) =
     [PDict [(''content_type'', PStr ''text''), (''title'', PStr ''Yes''), (''payload'', PStr ''Y'')],
      PDict [(''content_type'', PStr ''text''), (''title'', PStr ''No''), (''payload'', PStr ''No'')]] \<and>
   send_quick_replies_message rid txt rs lp s =
     send_message rid
       (PDict [(''text'', txt), (''quick_replies'', PList (quick_replies_list rs lp))]) regular s"
proof (intro conjI impI ballI allI)
  assume "lp = None \<or> lp = Some []"
  then show "quick_replies_list rs lp =
        map (\<lambda>r. PDict [(''content_type'', PStr ''text''), (''title'', r), (''payload'', r)]) rs"
    by (auto simp add: quick_replies_list_def quick_replies_plain_map)
next
  assume "lp = Some ps \<and> ps \<noteq> []"
  then show "length (quick_replies_list rs lp) = min (length rs) (length ps)"
    by (simp add: quick_replies_list_def quick_replies_zip_map)
next
  fix i
  assume "lp = Some ps \<and> ps \<noteq> []" and "i < min (length rs) (length ps)"
  then show "quick_replies_list rs lp ! i =
           PDict [(''content_type'', PStr ''text''), (''title'', rs ! i),
                  (''payload'', if ps ! i = PNone then rs ! i else ps ! i)]"
    by (simp add: quick_replies_list_def quick_replies_zip_map)
next
  fix e
  assume "e \<in> set (quick_replies_list rs lp)"
  then show "py_get e ''content_type'' = Inr (PStr ''text'')"
    by (rule quick_replies_list_content_type)
next
  show "quick_replies_list [PStr ''Yes'', PStr ''No''] (Some [PStr ''Y'', PNone]) =
     [PDict [(''content_type'', PStr ''text''), (''title'', PStr ''Yes''), (''payload'', PStr ''Y'')],
      PDict [(''content_type'', PStr ''text''), (''title'', PStr ''No''), (''payload'', PStr ''No'')]]"
    by (simp add: quick_replies_list_def)
next
  show "send_quick_replies_message rid txt rs lp s =
     send_message rid
       (PDict [(''text'', txt), (''quick_replies'', PList (quick_replies_list rs lp))]) regular s"
    by (simp add: send_quick_replies_message_def)
qed

theorem quick_replies_default_payload_witness:
  "quick_replies_list [PStr ''Yes'', PStr ''No''] None =
     [PDict [(''content_type'', PStr ''text''), (''title'', PStr ''Yes''), (''payload'', PStr ''Yes'')],
      PDict [(''content_type'', PStr ''text''), (''title'', PStr ''No''), (''payload'', PStr ''No'')]] \<and>
   [PStr ''Y'', PNone] \<noteq> [] \<and> (1::nat) < min (length [PStr ''Yes'', PStr ''No'']) (length [PStr ''Y'', PNone]) \<and>
   quick_replies_list [PStr ''Yes'', PStr ''No''] (Some [PStr ''Y'', PNone]) ! 1 =
     PDict [(''content_type'', PStr ''text''), (''title'', PStr ''No''), (''payload'', PStr ''No'')] \<and>
   PDict [(''content_type'', PStr ''text''), (''title'', PStr ''Yes''), (''payload'', PStr ''Y'')]
     \<in> set (quick_replies_list [PStr ''Yes'', PStr ''No''] (Some [PStr ''Y'', PNone])) \<and>
   py_get (PDict [(''content_type'', PStr ''text''), (''title'', PStr ''Yes''), (''payload'', PStr ''Y'')])
     ''content_type'' = Inr (PStr ''text'')"
  using quick_replies_default_payload [of None "[PStr ''Yes'', PStr ''No'']" "[]"]
        quick_replies_default_payload [of "Some [PStr ''Y'', PNone]" "[PStr ''Yes'', PStr ''No'']"
          "[PStr ''Y'', PNone]"]
  by simp

text \<open>
  C9.  For every message kind, the payload that goes out is a function of the arguments
  and of the bot's configuration alone.  Built in two states with the same session (any
  heap, trace, platform, boundaries and cache contents), the outbound payloads are equal:
  for \<^verbatim>\<open>send_recipient\<close> on payload objects with equal contents, for every sender built on
  \<^verbatim>\<open>send_message\<close> (text, attachment by URL, generic and button templates, quick
  replies), for tag messages and sender actions, and for \<^verbatim>\<open>send_attachment\<close> when the
  file holds the same bytes.  Built twice in a row with the same arguments, the second
  payload equals the first, also for \<^verbatim>\<open>send_recipient\<close> on the very object that the
  first call has already written to.  (\<open>outbound\<close> leaves out the boundary that the
  multipart encoder draws, which is not part of what the bot builds.)
\<close>

theorem payload_construction_deterministic:
  "(same_session (self s) (self s') \<and> cache_ok (self s) \<and> cache_ok (self s') \<longrightarrow>
      (heap s a = heap s' a' \<longrightarrow>
         outbound (send_recipient rid a nt) s = outbound (send_recipient rid a' nt) s') \<and>
      outbound (send_message rid msg nt) s = outbound (send_message rid msg nt) s' \<and>
      outbound (send_text_message rid msg nt) s = outbound (send_text_message rid msg nt) s' \<and>
      outbound (send_attachment_url rid atype u nt) s = outbound (send_attachment_url rid atype u nt) s' \<and>
      outbound (send_generic_message rid elements nt) s =
        outbound (send_generic_message rid elements nt) s' \<and>
      outbound (send_button_message rid txt buttons nt) s =
        outbound (send_button_message rid txt buttons nt) s' \<and>
      outbound (send_quick_replies_message rid txt rs lp) s =
        outbound (send_quick_replies_message rid txt rs lp) s' \<and>
      outbound (send_tag_message rid msg tag nt) s = outbound (send_tag_message rid msg tag nt) s' \<and>
      outbound (send_action rid action nt) s = outbound (send_action rid action nt) s' \<and>
      (files s path = files s' path \<longrightarrow>
         outbound (send_attachment rid atype path nt reusable) s =
           outbound (send_attachment rid atype path nt reusable) s')) \<and>
   outbound (send_recipient rid a nt) (snd (send_recipient rid a nt s)) =
     outbound (send_recipient rid a nt) s \<and>
   outbound (send_generic_message rid elements nt) (snd (send_generic_message rid elements nt s)) =
     outbound (send_generic_message rid elements nt) s \<and>
   outbound (send_attachment rid atype path nt reusable)
       (snd (send_attachment rid atype path nt reusable s)) =
     outbound (send_attachment rid atype path nt reusable) s"
proof -
  have cross: "same_config s s'"
    if "same_session (self s) (self s') \<and> cache_ok (self s) \<and> cache_ok (self s')"
    using that by (simp add: same_config_session)
  show ?thesis
    using cross
    by (simp add: send_message_wrappers outbound_send_recipient outbound_send_message
        outbound_send_tag_message outbound_send_action outbound_send_attachment
        outbound_send_recipient_again outbound_send_message_again outbound_send_attachment_again)
qed

theorem payload_construction_deterministic_witness:
  "same_session (self (sample_state 16 None 200 None)) (self (sample_state 16 None 500 (Some PNone))) \<and>
   cache_ok (self (sample_state 16 None 200 None)) \<and>
   cache_ok (self (sample_state 16 None 500 (Some PNone))) \<and>
   files (sample_state 16 None 200 None) ''cat.png'' =
     files (sample_state 16 None 500 (Some PNone)) ''cat.png'' \<and>
   outbound (send_generic_message (PDict [(''id'', PStr ''42'')]) (PList []) regular)
       (sample_state 16 None 200 None) =
     outbound (send_generic_message (PDict [(''id'', PStr ''42'')]) (PList []) regular)
       (sample_state 16 None 500 (Some PNone)) \<and>
   outbound (send_attachment (PStr ''42'') ''image'' ''cat.png'' regular True)
       (sample_state 16 None 200 None) =
     outbound (send_attachment (PStr ''42'') ''image'' ''cat.png'' regular True)
       (sample_state 16 None 500 (Some PNone))"
  using payload_construction_deterministic
          [where s = "sample_state 16 None 200 None" and s' = "sample_state 16 None 500 (Some PNone)"
             and rid = "PDict [(''id'', PStr ''42'')]" and elements = "PList []" and nt = regular
             and path = "''cat.png''"]
        payload_construction_deterministic
          [where s = "sample_state 16 None 200 None" and s' = "sample_state 16 None 500 (Some PNone)"
             and rid = "PStr ''42''" and atype = "''image''" and nt = regular and reusable = True
             and path = "''cat.png''"]
  by (simp add: sample_cache_ok sample_files sample_same_session)

end
